theory Spec2Isabelle
  imports
    Complex_Main
    "HOL-Library.Multiset"
    "HOL-Library.AList"
    "HOL-Library.Char_ord"
    "HOL-Library.List_Lexorder"
begin

chapter \<open>The cashflow backend: period aggregation and analytics\<close>

text \<open>
  A shallow embedding of the aggregation code of the cashflow backend
  (\<^verbatim>\<open>dashboardController.ts\<close>, the analytics controller, and the transaction
  controller), followed by the properties that its specification states about it.

  Conventions of the embedding.
  \<^item> A JavaScript number that takes part in aggregation is an exact \<^typ>\<open>real\<close>:
    the model does the arithmetic of the source without the rounding error of IEEE-754
    doubles. \<^verbatim>\<open>Math.round x\<close> is \<open>\<lfloor>x + 1/2\<rfloor>\<close>, which is \<^const>\<open>round\<close>.
  \<^item> A value taken from a request body, where the source tests its dynamic type, is a
    \<open>jsval\<close>.
  \<^item> The document store is a collaborator: a handler is a function of the replies the
    store gives, and returns the list of commands it sent together with its response.
    A command that throws makes the handler answer 500, as the \<^verbatim>\<open>catch\<close> of every
    handler does.
  \<^item> \<^verbatim>\<open>new Date()\<close> and \<^verbatim>\<open>randomUUID()\<close> are read once by each handler and are
    parameters of its model; \<^verbatim>\<open>toISOString\<close> is a parameter of that name.
\<close>

section \<open>JavaScript values\<close>

datatype jsnum = Finite real | NaN | PosInfinity | NegInfinity

datatype jsval =
    JUndefined
  | JNull
  | JBool bool
  | JNumber jsnum
  | JString string
  | JObject

text \<open>\<^verbatim>\<open>!v\<close> is the negation of \<open>truthy v\<close>.\<close>

fun truthy :: "jsval \<Rightarrow> bool" where
  "truthy JUndefined = False"
| "truthy JNull = False"
| "truthy (JBool b) = b"
| "truthy (JNumber (Finite r)) = (r \<noteq> 0)"
| "truthy (JNumber NaN) = False"
| "truthy (JNumber PosInfinity) = True"
| "truthy (JNumber NegInfinity) = True"
| "truthy (JString s) = (s \<noteq> [])"
| "truthy JObject = True"

text \<open>\<^verbatim>\<open>typeof v === 'number'\<close> and \<^verbatim>\<open>typeof v === 'string'\<close>.\<close>

fun typeof_number :: "jsval \<Rightarrow> bool" where
  "typeof_number (JNumber n) = True"
| "typeof_number v = False"

fun typeof_string :: "jsval \<Rightarrow> bool" where
  "typeof_string (JString s) = True"
| "typeof_string v = False"

text \<open>\<^verbatim>\<open>isNaN(v)\<close> and \<^verbatim>\<open>v <= 0\<close>, on a value whose type is number.\<close>

fun isNaN :: "jsnum \<Rightarrow> bool" where
  "isNaN NaN = True"
| "isNaN n = False"

fun le_zero :: "jsnum \<Rightarrow> bool" where
  "le_zero (Finite r) = (r \<le> 0)"
| "le_zero NaN = False"
| "le_zero PosInfinity = False"
| "le_zero NegInfinity = True"

text \<open>\<^verbatim>\<open>-n\<close>.\<close>

fun negate :: "jsnum \<Rightarrow> jsnum" where
  "negate (Finite r) = Finite (- r)"
| "negate NaN = NaN"
| "negate PosInfinity = NegInfinity"
| "negate NegInfinity = PosInfinity"

text \<open>A number strictly greater than zero: \<^verbatim>\<open>n > 0\<close>.\<close>

fun gt_zero :: "jsnum \<Rightarrow> bool" where
  "gt_zero (Finite r) = (0 < r)"
| "gt_zero NaN = False"
| "gt_zero PosInfinity = True"
| "gt_zero NegInfinity = False"

section \<open>Dates\<close>

text \<open>
  A \<^verbatim>\<open>Date\<close> is its time value, an integer number of milliseconds. The constructor
  \<^verbatim>\<open>new Date(year, month, day, hours, minutes, seconds)\<close> follows ECMA-262
  (\<^verbatim>\<open>MakeDay\<close>, \<^verbatim>\<open>MakeTime\<close>, \<^verbatim>\<open>MakeDate\<close>): a month outside 0..11 carries into
  the year and day 0 is the last day of the month before. The constructor reads its
  arguments in the host's local time; the model takes the host's zone to be a fixed
  offset, so local time values and time values differ by a constant that no comparison
  below depends on.
\<close>

definition DayFromYear :: "int \<Rightarrow> int" where
  "DayFromYear y =
     365 * (y - 1970) + (y - 1969) div 4 - (y - 1901) div 100 + (y - 1601) div 400"

definition InLeapYear :: "int \<Rightarrow> bool" where
  "InLeapYear y \<longleftrightarrow> y mod 4 = 0 \<and> (y mod 100 \<noteq> 0 \<or> y mod 400 = 0)"

text \<open>The days of a year before the first day of month \<open>mn\<close> (0 for January).\<close>

definition DaysFromYearStart :: "int \<Rightarrow> bool \<Rightarrow> int" where
  "DaysFromYearStart mn leap =
     [0, 31, 59, 90, 120, 151, 181, 212, 243, 273, 304, 334] ! nat mn
       + (if leap \<and> 2 \<le> mn then 1 else 0)"

definition MakeDay :: "int \<Rightarrow> int \<Rightarrow> int \<Rightarrow> int" where
  "MakeDay year month dt =
     (let ym = year + month div 12;
          mn = month mod 12
      in DayFromYear ym + DaysFromYearStart mn (InLeapYear ym) + dt - 1)"

definition MakeTime :: "int \<Rightarrow> int \<Rightarrow> int \<Rightarrow> int \<Rightarrow> int" where
  "MakeTime hour minute sec ms = hour * 3600000 + minute * 60000 + sec * 1000 + ms"

definition MakeDate :: "int \<Rightarrow> int \<Rightarrow> int" where
  "MakeDate day time = day * 86400000 + time"

definition newDate :: "int \<Rightarrow> int \<Rightarrow> int \<Rightarrow> int \<Rightarrow> int \<Rightarrow> int \<Rightarrow> int" where
  "newDate year month dt hours minutes seconds =
     (let yr = (if 0 \<le> year \<and> year \<le> 99 then 1900 + year else year)
      in MakeDate (MakeDay yr month dt) (MakeTime hours minutes seconds 0))"

text \<open>
  The current instant as \<^verbatim>\<open>getMonthRanges\<close> reads it: through \<^verbatim>\<open>getFullYear()\<close>
  and \<^verbatim>\<open>getMonth()\<close> (0 for January) only.
\<close>

record local_date =
  getFullYear :: int
  getMonth :: int

text \<open>The four \<^verbatim>\<open>Date\<close> objects that \<^verbatim>\<open>getMonthRanges\<close> builds.\<close>

definition currentMonthStart :: "local_date \<Rightarrow> int" where
  "currentMonthStart now = newDate (getFullYear now) (getMonth now) 1 0 0 0"

definition currentMonthEnd :: "local_date \<Rightarrow> int" where
  "currentMonthEnd now = newDate (getFullYear now) (getMonth now + 1) 0 23 59 59"

definition prevMonthStart :: "local_date \<Rightarrow> int" where
  "prevMonthStart now = newDate (getFullYear now) (getMonth now - 1) 1 0 0 0"

definition prevMonthEnd :: "local_date \<Rightarrow> int" where
  "prevMonthEnd now = newDate (getFullYear now) (getMonth now) 0 23 59 59"

record range =
  range_start :: string
  range_end :: string

record month_ranges =
  mr_current :: range
  mr_previous :: range

definition getMonthRanges :: "(int \<Rightarrow> string) \<Rightarrow> local_date \<Rightarrow> month_ranges" where
  "getMonthRanges toISOString now =
     \<lparr> mr_current = \<lparr> range_start = toISOString (currentMonthStart now),
                    range_end = toISOString (currentMonthEnd now) \<rparr>,
       mr_previous = \<lparr> range_start = toISOString (prevMonthStart now),
                     range_end = toISOString (prevMonthEnd now) \<rparr> \<rparr>"

text \<open>
  The store keeps a transaction of a month when its instant lies between the two ends,
  both included (\<^verbatim>\<open>#date BETWEEN :startDate AND :endDate\<close>).
\<close>

definition in_range :: "int \<Rightarrow> int \<Rightarrow> int \<Rightarrow> bool" where
  "in_range startDate endDate t \<longleftrightarrow> startDate \<le> t \<and> t \<le> endDate"

section \<open>Data model\<close>

datatype txn_type = Income | Expense

text \<open>
  The interface \<^verbatim>\<open>Transaction\<close> of \<^verbatim>\<open>models/Transaction.ts\<close>. Its \<^verbatim>\<open>type\<close> is the
  union of the two string literals; its \<^verbatim>\<open>category\<close> is optional there, and
  \<^verbatim>\<open>createTransaction\<close> gives every transaction one.
\<close>

record transaction =
  transactionId :: string
  userId :: string
  amount :: real
  description :: string
  category :: string
  type :: txn_type
  date :: string
  createdAt :: string
  updatedAt :: string

text \<open>
  The interface \<^verbatim>\<open>User\<close>; of its optional fields the aggregation reads
  \<^verbatim>\<open>startingBalance\<close> only.
\<close>

record user =
  user_userId :: string
  user_startingBalance :: "real option"

text \<open>
  The body of a \<^verbatim>\<open>POST\<close> request as \<^verbatim>\<open>createTransaction\<close> destructures it. No
  field has passed a check yet, so each is a value of any type.
\<close>

record request_body =
  body_type :: jsval
  body_amount :: jsval
  body_description :: jsval
  body_category :: jsval
  body_date :: jsval
  body_tags :: jsval

text \<open>
  The item that \<^verbatim>\<open>createTransaction\<close> builds and stores. The type, the amount and
  the description have passed the input validation; \<^verbatim>\<open>category || ...\<close> and
  \<^verbatim>\<open>date || now\<close> keep whatever truthy value the body had.
\<close>

record new_transaction =
  nt_transactionId :: string
  nt_userId :: string
  nt_amount :: jsnum
  nt_description :: string
  nt_category :: jsval
  nt_type :: txn_type
  nt_date :: jsval
  nt_createdAt :: string
  nt_updatedAt :: string

text \<open>
  The document that the Mongoose variant of \<^verbatim>\<open>createTransaction\<close> builds;
  \<open>doc_date\<close> is \<open>Some d\<close> for \<^verbatim>\<open>new Date(d)\<close> and \<open>None\<close> for \<^verbatim>\<open>new Date()\<close>.
\<close>

record transaction_doc =
  doc_userId :: string
  doc_type :: txn_type
  doc_amount :: jsnum
  doc_description :: string
  doc_category :: jsval
  doc_date :: "jsval option"
  doc_tags :: jsval
  doc_source :: string

record user_doc =
  doc_currentBalance :: real

section \<open>The document store\<close>

datatype date_filter = FromDate string | Between string string

record query_result =
  Items :: "transaction list option"
  Count :: "nat option"

text \<open>
  What the store replies: \<open>Inl message\<close> when the command throws an error with that
  message, \<open>Inr\<close> its result otherwise; for a write, \<open>Some message\<close> when it throws
  and \<open>None\<close> when it succeeds. \<open>addBalance\<close> is the conditional
  \<^verbatim>\<open>ADD startingBalance :balanceChange\<close> and \<open>setBalance\<close> the
  \<^verbatim>\<open>SET startingBalance = if_not_exists(startingBalance, :zero) + :balanceChange\<close> that
  \<^verbatim>\<open>createTransaction\<close> falls back to.
\<close>

record db =
  getUser :: "string \<Rightarrow> string + user option"
  queryTransactions :: "string \<Rightarrow> date_filter \<Rightarrow> string + query_result"
  putTransaction :: "new_transaction \<Rightarrow> string option"
  addBalance :: "string \<Rightarrow> jsnum \<Rightarrow> string option"
  setBalance :: "string \<Rightarrow> jsnum \<Rightarrow> string option"

datatype db_command =
    GetUser string
  | QueryTransactions string date_filter
  | PutTransaction new_transaction
  | AddBalance string jsnum
  | SetBalance string jsnum

text \<open>The Mongoose models of the older variant, and the calls it makes on them.\<close>

record mongoose =
  save :: "transaction_doc \<Rightarrow> string option"
  findByIdAndUpdate :: "string \<Rightarrow> jsnum \<Rightarrow> string + user_doc option"

datatype mongoose_call =
    Save transaction_doc
  | FindByIdAndUpdate string jsnum

text \<open>A response: the HTTP status and either \<^verbatim>\<open>{ error: message }\<close> or a payload.\<close>

record 'a response =
  status :: nat
  json :: "string + 'a"

text \<open>\<^verbatim>\<open>userResult.Item?.startingBalance || 0\<close>\<close>

definition balanceOf :: "user option \<Rightarrow> real" where
  "balanceOf item =
     (case item of
        None \<Rightarrow> 0
      | Some u \<Rightarrow> (case user_startingBalance u of None \<Rightarrow> 0 | Some b \<Rightarrow> b))"

text \<open>\<^verbatim>\<open>result.Items || []\<close>\<close>

definition itemsOf :: "query_result \<Rightarrow> transaction list" where
  "itemsOf result = (case Items result of None \<Rightarrow> [] | Some ts \<Rightarrow> ts)"

section \<open>Transaction aggregator\<close>

text \<open>
  \<^verbatim>\<open>transactions.filter(t => t.type === ty).reduce((sum, t) => sum + t.amount, 0)\<close>,
  the expression behind every total of the handlers.
\<close>

definition total_of :: "txn_type \<Rightarrow> transaction list \<Rightarrow> real" where
  "total_of ty transactions =
     foldl (\<lambda>sum t. sum + amount t) 0 (filter (\<lambda>t. type t = ty) transactions)"

record summary =
  totalIncome :: real
  totalExpenses :: real
  netAmount :: real
  transactionCount :: nat

text \<open>
  The block \<^verbatim>\<open>// Calculate summary\<close> and the \<^verbatim>\<open>summary\<close> object of the response,
  which \<^verbatim>\<open>getTransactionsByPeriod\<close> and \<^verbatim>\<open>getAnalytics\<close> build alike.
\<close>

definition calculateSummary :: "transaction list \<Rightarrow> summary" where
  "calculateSummary transactions =
     (let income = total_of Income transactions;
          expenses = total_of Expense transactions
      in \<lparr> totalIncome = income,
           totalExpenses = expenses,
           netAmount = income - expenses,
           transactionCount = length transactions \<rparr>)"

section \<open>Trend and health scorer\<close>

definition calculateHealthScore :: "real \<Rightarrow> real \<Rightarrow> int" where
  "calculateHealthScore income expenses =
     (if income = 0 then (if expenses = 0 then 100 else 0)
      else (let ratio = (income - expenses) / income
            in max 0 (min 100 (round ((ratio + 1) * 50)))))"

definition calculatePercentageChange :: "real \<Rightarrow> real \<Rightarrow> int" where
  "calculatePercentageChange current previous =
     (if previous = 0 then (if current > 0 then 100 else 0)
      else round (((current - previous) / previous) * 100))"

text \<open>\<^verbatim>\<open>change >= 0 ? 'up' : 'down'\<close>\<close>

definition trendOf :: "int \<Rightarrow> string" where
  "trendOf change = (if change \<ge> 0 then ''up'' else ''down'')"

record metric =
  m_value :: real
  m_percentageChange :: int
  m_trend :: string

record dashboard =
  monthlyIncome :: metric
  monthlyExpense :: metric
  currentBalance :: metric
  healthScore :: metric

record dashboard_payload =
  dashboard :: dashboard
  period :: month_ranges

text \<open>
  The body of \<^verbatim>\<open>getDashboard\<close> from \<^verbatim>\<open>// Calculate current month metrics\<close> on: the
  metrics of the dashboard from the stored balance and the transactions of the two
  months.
\<close>

definition dashboardMetrics :: "real \<Rightarrow> transaction list \<Rightarrow> transaction list \<Rightarrow> dashboard" where
  "dashboardMetrics balance currentTransactions previousTransactions =
     (let currentIncome = total_of Income currentTransactions;
          currentExpenses = total_of Expense currentTransactions;
          previousIncome = total_of Income previousTransactions;
          previousExpenses = total_of Expense previousTransactions;
          currentHealthScore = calculateHealthScore currentIncome currentExpenses;
          previousHealthScore = calculateHealthScore previousIncome previousExpenses;
          incomeChange = calculatePercentageChange currentIncome previousIncome;
          expenseChange = calculatePercentageChange currentExpenses previousExpenses;
          healthScoreChange =
            calculatePercentageChange (of_int currentHealthScore) (of_int previousHealthScore);
          estimatedPreviousBalance = balance - (currentIncome - currentExpenses);
          balanceChange = calculatePercentageChange balance estimatedPreviousBalance
      in \<lparr> monthlyIncome =
             \<lparr> m_value = currentIncome, m_percentageChange = incomeChange,
               m_trend = trendOf incomeChange \<rparr>,
           monthlyExpense =
             \<lparr> m_value = currentExpenses, m_percentageChange = expenseChange,
               m_trend = trendOf expenseChange \<rparr>,
           currentBalance =
             \<lparr> m_value = balance, m_percentageChange = balanceChange,
               m_trend = trendOf balanceChange \<rparr>,
           healthScore =
             \<lparr> m_value = of_int currentHealthScore, m_percentageChange = healthScoreChange,
               m_trend = trendOf healthScoreChange \<rparr> \<rparr>)"

text \<open>
  \<^verbatim>\<open>req.user?.sub\<close> is \<open>None\<close> when it is undefined; \<^verbatim>\<open>!userId\<close> holds then and for
  the empty string.
\<close>

definition getDashboard ::
  "db \<Rightarrow> (int \<Rightarrow> string) \<Rightarrow> local_date \<Rightarrow> string option
     \<Rightarrow> db_command list \<times> dashboard_payload response" where
  "getDashboard store toISOString now sub =
     (case sub of
        None \<Rightarrow> ([], \<lparr> status = 400, json = Inl ''User ID not found in token'' \<rparr>)
      | Some subject \<Rightarrow>
          if subject = [] then ([], \<lparr> status = 400, json = Inl ''User ID not found in token'' \<rparr>)
          else
            let ranges = getMonthRanges toISOString now;
                c1 = GetUser subject;
                f2 = Between (range_start (mr_current ranges)) (range_end (mr_current ranges));
                c2 = QueryTransactions subject f2;
                f3 = Between (range_start (mr_previous ranges)) (range_end (mr_previous ranges));
                c3 = QueryTransactions subject f3
            in (case getUser store subject of
                  Inl message \<Rightarrow> ([c1], \<lparr> status = 500, json = Inl message \<rparr>)
                | Inr userItem \<Rightarrow>
                   (case queryTransactions store subject f2 of
                      Inl message \<Rightarrow> ([c1, c2], \<lparr> status = 500, json = Inl message \<rparr>)
                    | Inr currentMonthResult \<Rightarrow>
                       (case queryTransactions store subject f3 of
                          Inl message \<Rightarrow> ([c1, c2, c3], \<lparr> status = 500, json = Inl message \<rparr>)
                        | Inr previousMonthResult \<Rightarrow>
                            ([c1, c2, c3],
                             \<lparr> status = 200,
                               json = Inr \<lparr> dashboard =
                                             dashboardMetrics (balanceOf userItem)
                                               (itemsOf currentMonthResult)
                                               (itemsOf previousMonthResult),
                                           period = ranges \<rparr> \<rparr>)))))"

section \<open>Period resolver and the period summary endpoint\<close>

definition validPeriods :: "string list" where
  "validPeriods = [''7d'', ''30d'', ''90d'', ''1y'']"

text \<open>
  The \<^verbatim>\<open>switch (period)\<close> that \<^verbatim>\<open>getTransactionsByPeriod\<close> and \<^verbatim>\<open>getDateRanges\<close>
  both contain: the \<^verbatim>\<open>startDate\<close> for the instant \<open>now\<close>.
\<close>

definition startDateOf :: "int \<Rightarrow> string \<Rightarrow> int" where
  "startDateOf now p =
     (if p = ''7d'' then now - 7 * 24 * 60 * 60 * 1000
      else if p = ''30d'' then now - 30 * 24 * 60 * 60 * 1000
      else if p = ''90d'' then now - 90 * 24 * 60 * 60 * 1000
      else if p = ''1y'' then now - 365 * 24 * 60 * 60 * 1000
      else now - 30 * 24 * 60 * 60 * 1000)"

definition getDateRanges :: "(int \<Rightarrow> string) \<Rightarrow> int \<Rightarrow> string \<Rightarrow> range" where
  "getDateRanges toISOString now p =
     \<lparr> range_start = toISOString (startDateOf now p), range_end = toISOString now \<rparr>"

record date_range =
  dr_from :: string
  dr_to :: string

record period_payload =
  pp_period :: string
  pp_dateRange :: date_range
  pp_summary :: summary
  pp_transactions :: "transaction list"
  pp_count :: nat

definition invalidPeriod :: string where
  "invalidPeriod = ''Invalid period. Use: 7d, 30d, 90d, or 1y''"

text \<open>
  \<^verbatim>\<open>req.params.period\<close> is \<open>None\<close> when the route gave none; \<^verbatim>\<open>includes\<close> is then
  false.
\<close>

definition getTransactionsByPeriod ::
  "db \<Rightarrow> (int \<Rightarrow> string) \<Rightarrow> int \<Rightarrow> string option \<Rightarrow> string option
     \<Rightarrow> db_command list \<times> period_payload response" where
  "getTransactionsByPeriod store toISOString now sub param =
     (case sub of
        None \<Rightarrow> ([], \<lparr> status = 400, json = Inl ''User ID not found in token'' \<rparr>)
      | Some subject \<Rightarrow>
          if subject = [] then ([], \<lparr> status = 400, json = Inl ''User ID not found in token'' \<rparr>)
          else
            (case param of
               None \<Rightarrow> ([], \<lparr> status = 400, json = Inl invalidPeriod \<rparr>)
             | Some p \<Rightarrow>
                 if p \<notin> set validPeriods then ([], \<lparr> status = 400, json = Inl invalidPeriod \<rparr>)
                 else
                   let startDate = startDateOf now p;
                       f = FromDate (toISOString startDate);
                       c = QueryTransactions subject f
                   in (case queryTransactions store subject f of
                         Inl message \<Rightarrow> ([c], \<lparr> status = 500, json = Inl message \<rparr>)
                       | Inr result \<Rightarrow>
                           let transactions = itemsOf result
                           in ([c],
                               \<lparr> status = 200,
                                 json = Inr
                                   \<lparr> pp_period = p,
                                     pp_dateRange = \<lparr> dr_from = toISOString startDate,
                                                      dr_to = toISOString now \<rparr>,
                                     pp_summary = calculateSummary transactions,
                                     pp_transactions = transactions,
                                     pp_count = (case Count result of None \<Rightarrow> 0 | Some n \<Rightarrow> n)
                                   \<rparr> \<rparr>))))"

section \<open>JavaScript objects as dictionaries\<close>

text \<open>
  An object literal \<^verbatim>\<open>{}\<close> that the source fills by \<^verbatim>\<open>obj[key] = v\<close> is the list of
  its own properties in the order of their creation: \<^const>\<open>map_of\<close> reads a property,
  \<^const>\<open>AList.update\<close> writes one (in place when the key exists, at the end otherwise).

  \<^verbatim>\<open>Object.keys\<close> and \<^verbatim>\<open>Object.entries\<close> do not enumerate in creation order
  throughout (ECMA-262, \<^verbatim>\<open>OrdinaryOwnPropertyKeys\<close>): the keys that are array indices
  (canonical decimal numerals below \<open>2\<^sup>3\<^sup>2 - 1\<close>, such as \<^verbatim>\<open>"7"\<close> or \<^verbatim>\<open>"2024"\<close>)
  come first, in ascending numeric order, and the other keys follow in creation order.

  The list holds own properties only, while a read \<^verbatim>\<open>obj[key]\<close> of the source also
  finds what \<^verbatim>\<open>Object.prototype\<close> gives every object under the names
  \<open>inheritedNames\<close> (\<^verbatim>\<open>constructor\<close>, \<^verbatim>\<open>toString\<close> and the others of ECMA-262,
  section 20.1.3 and annex B.2.2). Where the source groups by day, such a read is
  modelled (it ends in a \<^verbatim>\<open>TypeError\<close>); where it sums by category, the properties
  below exclude categories of these names.
\<close>

type_synonym 'v object = "(string \<times> 'v) list"

definition isDigit :: "char \<Rightarrow> bool" where
  "isDigit c \<longleftrightarrow> CHR ''0'' \<le> c \<and> c \<le> CHR ''9''"

definition numericValue :: "string \<Rightarrow> int" where
  "numericValue s = foldl (\<lambda>n c. 10 * n + (of_char c - 48)) 0 s"

definition isArrayIndex :: "string \<Rightarrow> bool" where
  "isArrayIndex s \<longleftrightarrow>
     s \<noteq> [] \<and> list_all isDigit s \<and> (s = ''0'' \<or> hd s \<noteq> CHR ''0'')
       \<and> numericValue s < 4294967295"

definition Object_entries :: "'v object \<Rightarrow> (string \<times> 'v) list" where
  "Object_entries obj =
     sort_key (\<lambda>e. numericValue (fst e)) (filter (\<lambda>e. isArrayIndex (fst e)) obj)
       @ filter (\<lambda>e. \<not> isArrayIndex (fst e)) obj"

definition Object_keys :: "'v object \<Rightarrow> string list" where
  "Object_keys obj = map fst (Object_entries obj)"

definition inheritedNames :: "string list" where
  "inheritedNames =
     [''constructor'', ''__proto__'', ''hasOwnProperty'', ''isPrototypeOf'',
      ''propertyIsEnumerable'', ''toLocaleString'', ''toString'', ''valueOf'',
      ''__defineGetter__'', ''__defineSetter__'', ''__lookupGetter__'', ''__lookupSetter__'']"

section \<open>Daily series builder\<close>

record day_data =
  dd_income :: real
  dd_expense :: real
  dd_transactions :: "transaction list"

text \<open>\<^verbatim>\<open>transaction.date.split('T')[0]\<close>: the date up to its first \<^verbatim>\<open>T\<close>.\<close>

definition dayKey :: "string \<Rightarrow> string" where
  "dayKey d = takeWhile (\<lambda>c. c \<noteq> CHR ''T'') d"

text \<open>
  The callback of \<^verbatim>\<open>transactions.forEach\<close> in \<^verbatim>\<open>groupTransactionsByDate\<close> for a day
  whose key is absent or an own property: the day's entry is created with zero totals
  when it is absent, then one of its totals grows and the transaction is pushed onto
  its list.
\<close>

definition groupStep :: "day_data object \<Rightarrow> transaction \<Rightarrow> day_data object" where
  "groupStep grouped t =
     (let d = dayKey (date t);
          dayData = (case map_of grouped d of
                       None \<Rightarrow> \<lparr> dd_income = 0, dd_expense = 0, dd_transactions = [] \<rparr>
                     | Some existing \<Rightarrow> existing);
          counted = (if type t = Income
                     then dayData \<lparr> dd_income := dd_income dayData + amount t \<rparr>
                     else dayData \<lparr> dd_expense := dd_expense dayData + amount t \<rparr>)
      in AList.update d (counted \<lparr> dd_transactions := dd_transactions counted @ [t] \<rparr>) grouped)"

text \<open>
  The loop of \<^verbatim>\<open>forEach\<close>. For a key of \<open>inheritedNames\<close> the test
  \<^verbatim>\<open>!grouped[date]\<close> finds the inherited value, no entry is created, and
  \<^verbatim>\<open>grouped[date].transactions.push\<close> throws a \<^verbatim>\<open>TypeError\<close>, since the inherited
  value has no property \<^verbatim>\<open>transactions\<close>.
\<close>

fun groupFrom :: "day_data object \<Rightarrow> transaction list \<Rightarrow> string + day_data object" where
  "groupFrom grouped [] = Inr grouped"
| "groupFrom grouped (t # ts) =
     (if dayKey (date t) \<in> set inheritedNames then Inl ''TypeError''
      else groupFrom (groupStep grouped t) ts)"

definition groupTransactionsByDate :: "transaction list \<Rightarrow> string + day_data object" where
  "groupTransactionsByDate transactions = groupFrom [] transactions"

record chart_point =
  cp_date :: string
  cp_income :: real
  cp_expense :: real
  net :: real
  cumulativeBalance :: real

text \<open>
  The callback of \<^verbatim>\<open>sortedDates.map\<close>, with the variable \<^verbatim>\<open>cumulativeBalance\<close> that
  it updates as an argument. Reading the totals of a day that the object does not have
  throws a \<^verbatim>\<open>TypeError\<close>.
\<close>

fun chartFrom :: "day_data object \<Rightarrow> real \<Rightarrow> string list \<Rightarrow> string + chart_point list" where
  "chartFrom groupedData balance [] = Inr []"
| "chartFrom groupedData balance (d # ds) =
     (case map_of groupedData d of
        None \<Rightarrow> Inl ''TypeError''
      | Some dayData \<Rightarrow>
          let n = dd_income dayData - dd_expense dayData;
              balance' = balance + n
          in (case chartFrom groupedData balance' ds of
                Inl message \<Rightarrow> Inl message
              | Inr points \<Rightarrow>
                  Inr (\<lparr> cp_date = d, cp_income = dd_income dayData,
                         cp_expense = dd_expense dayData, net = n,
                         cumulativeBalance = balance' \<rparr> # points)))"

text \<open>
  \<^verbatim>\<open>Object.keys(groupedData).sort()\<close> orders the keys as strings, ascending by
  character code.
\<close>

definition generateChartData :: "day_data object \<Rightarrow> real \<Rightarrow> string + chart_point list" where
  "generateChartData groupedData startingBalance =
     (let sortedDates = sort (Object_keys groupedData)
      in chartFrom groupedData startingBalance sortedDates)"

section \<open>Category breakdown builder\<close>

record category_slice =
  cs_category :: string
  cs_amount :: real
  percentage :: int

record category_breakdown =
  bd_income :: "category_slice list"
  bd_expense :: "category_slice list"

text \<open>
  The callback of \<^verbatim>\<open>transactions.forEach\<close> in \<^verbatim>\<open>calculateCategoryBreakdown\<close>, on the
  four variables \<^verbatim>\<open>incomeCategories\<close>, \<^verbatim>\<open>expenseCategories\<close>, \<^verbatim>\<open>totalIncome\<close> and
  \<^verbatim>\<open>totalExpenses\<close>. \<^verbatim>\<open>(categories[c] || 0)\<close> is the stored amount, or 0 when there is
  none.
\<close>

definition addTo :: "real object \<Rightarrow> string \<Rightarrow> real \<Rightarrow> real object" where
  "addTo categories c a =
     AList.update c ((case map_of categories c of None \<Rightarrow> 0 | Some v \<Rightarrow> v) + a) categories"

definition categoryStep ::
  "real object \<times> real object \<times> real \<times> real \<Rightarrow> transaction
     \<Rightarrow> real object \<times> real object \<times> real \<times> real" where
  "categoryStep acc t =
     (case acc of (incomeCategories, expenseCategories, totalInc, totalExp) \<Rightarrow>
        if type t = Income
        then (addTo incomeCategories (category t) (amount t), expenseCategories,
              totalInc + amount t, totalExp)
        else (incomeCategories, addTo expenseCategories (category t) (amount t),
              totalInc, totalExp + amount t))"

text \<open>
  \<^verbatim>\<open>Array.prototype.sort\<close> is stable; with the comparator \<^verbatim>\<open>b.amount - a.amount\<close> it is
  the stable sort on the negated amount.
\<close>

definition formatCategories :: "real object \<Rightarrow> real \<Rightarrow> category_slice list" where
  "formatCategories categories partitionTotal =
     sort_key (\<lambda>s. - cs_amount s)
       (map (\<lambda>e. \<lparr> cs_category = fst e,
                    cs_amount = snd e,
                    percentage =
                      (if partitionTotal > 0 then round ((snd e / partitionTotal) * 100) else 0) \<rparr>)
            (Object_entries categories))"

definition calculateCategoryBreakdown :: "transaction list \<Rightarrow> category_breakdown" where
  "calculateCategoryBreakdown transactions =
     (case foldl categoryStep ([], [], 0, 0) transactions of
        (incomeCategories, expenseCategories, totalInc, totalExp) \<Rightarrow>
          \<lparr> bd_income = formatCategories incomeCategories totalInc,
            bd_expense = formatCategories expenseCategories totalExp \<rparr>)"

section \<open>The analytics endpoint\<close>

record analytics_payload =
  ap_period :: string
  ap_dateRange :: date_range
  ap_summary :: summary
  ap_chartData :: "chart_point list"
  ap_categoryBreakdown :: category_breakdown

text \<open>\<^verbatim>\<open>const { period = '30d' } = req.params\<close>: an absent parameter reads as 30d.\<close>

definition getAnalytics ::
  "db \<Rightarrow> (int \<Rightarrow> string) \<Rightarrow> int \<Rightarrow> string option \<Rightarrow> string option
     \<Rightarrow> db_command list \<times> analytics_payload response" where
  "getAnalytics store toISOString now sub param =
     (let p = (case param of None \<Rightarrow> ''30d'' | Some given \<Rightarrow> given)
      in case sub of
           None \<Rightarrow> ([], \<lparr> status = 400, json = Inl ''User ID not found in token'' \<rparr>)
         | Some subject \<Rightarrow>
             if subject = [] then ([], \<lparr> status = 400, json = Inl ''User ID not found in token'' \<rparr>)
             else if p \<notin> set validPeriods then ([], \<lparr> status = 400, json = Inl invalidPeriod \<rparr>)
             else
               let dateRange = getDateRanges toISOString now p;
                   c1 = GetUser subject;
                   f = Between (range_start dateRange) (range_end dateRange);
                   c2 = QueryTransactions subject f
               in (case getUser store subject of
                     Inl message \<Rightarrow> ([c1], \<lparr> status = 500, json = Inl message \<rparr>)
                   | Inr userItem \<Rightarrow>
                      (case queryTransactions store subject f of
                         Inl message \<Rightarrow> ([c1, c2], \<lparr> status = 500, json = Inl message \<rparr>)
                       | Inr result \<Rightarrow>
                           let balance = balanceOf userItem;
                               transactions = itemsOf result;
                               s = calculateSummary transactions
                           in (case (case groupTransactionsByDate transactions of
                                       Inl message \<Rightarrow> Inl message
                                     | Inr groupedData \<Rightarrow>
                                         generateChartData groupedData (balance - netAmount s)) of
                                 Inl message \<Rightarrow> ([c1, c2], \<lparr> status = 500, json = Inl message \<rparr>)
                               | Inr chartData \<Rightarrow>
                                   ([c1, c2],
                                    \<lparr> status = 200,
                                      json = Inr
                                        \<lparr> ap_period = p,
                                          ap_dateRange = \<lparr> dr_from = range_start dateRange,
                                                           dr_to = range_end dateRange \<rparr>,
                                          ap_summary = s,
                                          ap_chartData = chartData,
                                          ap_categoryBreakdown =
                                            calculateCategoryBreakdown transactions \<rparr> \<rparr>)))))"

section \<open>Creating a transaction\<close>

text \<open>The string that the field \<^verbatim>\<open>type\<close> holds.\<close>

fun typeString :: "txn_type \<Rightarrow> string" where
  "typeString Income = ''income''"
| "typeString Expense = ''expense''"

definition categorizeTransaction :: "string \<Rightarrow> jsnum \<Rightarrow> string \<Rightarrow> string" where
  "categorizeTransaction d a ty =
     (if ty = ''income'' then ''General Income''
      else if ty = ''expense'' then ''General Expense''
      else ''Uncategorized'')"

text \<open>
  The block \<^verbatim>\<open>// Input validation\<close> after the check of the user: the three tests in
  the order of the source, each answering with its own message. A body that passes
  yields its type, its amount and its description.
  \<^item> \<^verbatim>\<open>!type || !['income', 'expense'].includes(type)\<close> passes for the two strings only;
  \<^item> \<^verbatim>\<open>typeof amount !== 'number' || isNaN(amount) || amount <= 0\<close>;
  \<^item> \<^verbatim>\<open>!description || typeof description !== 'string'\<close> passes for a non-empty
    string only.
\<close>

definition inputValidation :: "request_body \<Rightarrow> string + txn_type \<times> jsnum \<times> string" where
  "inputValidation body =
     (case (case body_type body of
              JString s \<Rightarrow> if s = ''income'' then Some Income
                           else if s = ''expense'' then Some Expense
                           else None
            | _ \<Rightarrow> None) of
        None \<Rightarrow> Inl ''Invalid or missing transaction type''
      | Some ty \<Rightarrow>
         (case body_amount body of
            JNumber a \<Rightarrow>
              if isNaN a \<or> le_zero a then Inl ''Amount must be a positive number''
              else (case body_description body of
                      JString d \<Rightarrow>
                        if d = [] then Inl ''Description is required''
                        else Inr (ty, a, d)
                    | _ \<Rightarrow> Inl ''Description is required'')
          | _ \<Rightarrow> Inl ''Amount must be a positive number''))"

record created_payload =
  cr_message :: string
  cr_transaction :: new_transaction
  cr_currentBalance :: real

text \<open>
  \<^verbatim>\<open>createTransaction\<close> of the transaction controller; \<open>uuid\<close> is the value of
  \<^verbatim>\<open>randomUUID()\<close> and \<open>now\<close> that of \<^verbatim>\<open>new Date().toISOString()\<close>.
\<close>

definition createTransaction ::
  "db \<Rightarrow> string \<Rightarrow> string \<Rightarrow> string option \<Rightarrow> request_body
     \<Rightarrow> db_command list \<times> created_payload response" where
  "createTransaction store uuid now sub body =
     (case sub of
        None \<Rightarrow> ([], \<lparr> status = 400, json = Inl ''User ID not found in token'' \<rparr>)
      | Some subject \<Rightarrow>
          if subject = [] then ([], \<lparr> status = 400, json = Inl ''User ID not found in token'' \<rparr>)
          else
            (case inputValidation body of
               Inl message \<Rightarrow> ([], \<lparr> status = 400, json = Inl message \<rparr>)
             | Inr (ty, a, d) \<Rightarrow>
                 let finalCategory = (if truthy (body_category body) then body_category body
                                      else JString (categorizeTransaction d a (typeString ty)));
                     item = \<lparr> nt_transactionId = uuid,
                              nt_userId = subject,
                              nt_amount = a,
                              nt_description = d,
                              nt_category = finalCategory,
                              nt_type = ty,
                              nt_date = (if truthy (body_date body) then body_date body
                                         else JString now),
                              nt_createdAt = now,
                              nt_updatedAt = now \<rparr>;
                     balanceChange = (if ty = Income then a else negate a);
                     c1 = PutTransaction item;
                     c2 = AddBalance subject balanceChange;
                     c3 = SetBalance subject balanceChange;
                     c4 = GetUser subject
                 in (case putTransaction store item of
                       Some message \<Rightarrow> ([c1], \<lparr> status = 500, json = Inl message \<rparr>)
                     | None \<Rightarrow>
                        (case addBalance store subject balanceChange of
                           None \<Rightarrow>
                             (case getUser store subject of
                                Inl message \<Rightarrow> ([c1, c2, c4], \<lparr> status = 500, json = Inl message \<rparr>)
                              | Inr userItem \<Rightarrow>
                                  ([c1, c2, c4],
                                   \<lparr> status = 201,
                                     json = Inr \<lparr> cr_message = ''Transaction added successfully'',
                                                 cr_transaction = item,
                                                 cr_currentBalance = balanceOf userItem \<rparr> \<rparr>))
                         | Some balanceError \<Rightarrow>
                             (case setBalance store subject balanceChange of
                                Some message \<Rightarrow> ([c1, c2, c3], \<lparr> status = 500, json = Inl message \<rparr>)
                              | None \<Rightarrow>
                                 (case getUser store subject of
                                    Inl message \<Rightarrow>
                                      ([c1, c2, c3, c4], \<lparr> status = 500, json = Inl message \<rparr>)
                                  | Inr userItem \<Rightarrow>
                                      ([c1, c2, c3, c4],
                                       \<lparr> status = 201,
                                         json = Inr
                                           \<lparr> cr_message = ''Transaction added successfully'',
                                             cr_transaction = item,
                                             cr_currentBalance = balanceOf userItem \<rparr> \<rparr>)))))))"

record created_doc_payload =
  cd_message :: string
  cd_transaction :: transaction_doc
  cd_currentBalance :: real

text \<open>
  The Mongoose variant of \<^verbatim>\<open>createTransaction\<close>. It validates the body first, without
  a check of the user; \<open>requestUser\<close> is \<^verbatim>\<open>req.user\<close> by its \<^verbatim>\<open>_id\<close>, and reading
  \<^verbatim>\<open>req.user._id\<close> of an undefined user throws inside the \<^verbatim>\<open>try\<close>.
\<close>

definition createTransactionMongoose ::
  "mongoose \<Rightarrow> string option \<Rightarrow> request_body
     \<Rightarrow> mongoose_call list \<times> created_doc_payload response" where
  "createTransactionMongoose models requestUser body =
     (case inputValidation body of
        Inl message \<Rightarrow> ([], \<lparr> status = 400, json = Inl message \<rparr>)
      | Inr (ty, a, d) \<Rightarrow>
         (case requestUser of
            None \<Rightarrow> ([], \<lparr> status = 500, json = Inl ''TypeError'' \<rparr>)
          | Some uid \<Rightarrow>
              let finalCategory = (if truthy (body_category body) then body_category body
                                   else JString (categorizeTransaction d a (typeString ty)));
                  doc = \<lparr> doc_userId = uid,
                          doc_type = ty,
                          doc_amount = a,
                          doc_description = d,
                          doc_category = finalCategory,
                          doc_date = (if truthy (body_date body) then Some (body_date body)
                                      else None),
                          doc_tags = (if truthy (body_tags body) then body_tags body else JObject),
                          doc_source = ''manual'' \<rparr>;
                  balanceChange = (if ty = Income then a else negate a);
                  c1 = Save doc;
                  c2 = FindByIdAndUpdate uid balanceChange
              in (case save models doc of
                    Some message \<Rightarrow> ([c1], \<lparr> status = 500, json = Inl message \<rparr>)
                  | None \<Rightarrow>
                     (case findByIdAndUpdate models uid balanceChange of
                        Inl message \<Rightarrow> ([c1, c2], \<lparr> status = 500, json = Inl message \<rparr>)
                      | Inr None \<Rightarrow> ([c1, c2], \<lparr> status = 404, json = Inl ''User not found'' \<rparr>)
                      | Inr (Some u) \<Rightarrow>
                          ([c1, c2],
                           \<lparr> status = 201,
                             json = Inr \<lparr> cd_message = ''Transaction added successfully'',
                                         cd_transaction = doc,
                                         cd_currentBalance = doc_currentBalance u \<rparr> \<rparr>)))))"

section \<open>Notions of the specification\<close>

text \<open>\<open>clamp(x, lo, hi)\<close> as the specification uses it.\<close>

definition spec_clamp :: "int \<Rightarrow> int \<Rightarrow> int \<Rightarrow> int" where
  "spec_clamp x lo hi = (if x < lo then lo else if hi < x then hi else x)"

text \<open>
  A trend label agrees with its percentage change: it is \<open>up\<close> exactly when the
  change is at least zero and \<open>down\<close> exactly when the change is negative.
\<close>

definition trend_label_ok :: "metric \<Rightarrow> bool" where
  "trend_label_ok m \<longleftrightarrow>
     (m_trend m = ''up'') = (0 \<le> m_percentageChange m)
     \<and> (m_trend m = ''down'') = (m_percentageChange m < 0)"

definition dashboard_trends_ok :: "dashboard \<Rightarrow> bool" where
  "dashboard_trends_ok d \<longleftrightarrow>
     trend_label_ok (monthlyIncome d) \<and> trend_label_ok (monthlyExpense d)
     \<and> trend_label_ok (currentBalance d) \<and> trend_label_ok (healthScore d)"

text \<open>A request carries an authenticated user: \<^verbatim>\<open>req.user?.sub\<close> is truthy.\<close>

definition authenticated :: "string option \<Rightarrow> bool" where
  "authenticated sub = (case sub of None \<Rightarrow> False | Some u \<Rightarrow> u \<noteq> [])"

text \<open>An amount that is not a number, is NaN, or is at most zero.\<close>

definition amount_rejected :: "jsval \<Rightarrow> bool" where
  "amount_rejected v = (case v of JNumber a \<Rightarrow> isNaN a \<or> le_zero a | _ \<Rightarrow> True)"

text \<open>A type that is one of the two strings of the closed set.\<close>

definition type_accepted :: "jsval \<Rightarrow> bool" where
  "type_accepted v \<longleftrightarrow> v = JString ''income'' \<or> v = JString ''expense''"

text \<open>No transaction of the list has a day key that names an inherited property.\<close>

definition own_day_keys :: "transaction list \<Rightarrow> bool" where
  "own_day_keys ts = list_all (\<lambda>t. dayKey (date t) \<notin> set inheritedNames) ts"

text \<open>
  The signed amount of a transaction, the net amount that a grouped object holds, and
  the net amount it holds for one day: the quantities that the running balance adds up.
\<close>

definition signedAmount :: "transaction \<Rightarrow> real" where
  "signedAmount t = (if type t = Income then amount t else - amount t)"

definition netOf :: "day_data object \<Rightarrow> real" where
  "netOf g = (\<Sum>e\<leftarrow>g. dd_income (snd e) - dd_expense (snd e))"

definition dayNet :: "day_data object \<Rightarrow> string \<Rightarrow> real" where
  "dayNet groupedData d =
     (case map_of groupedData d of None \<Rightarrow> 0 | Some v \<Rightarrow> dd_income v - dd_expense v)"

text \<open>
  First-encountered order: the list without its repetitions, each element where it
  first occurs.
\<close>

fun firstSeen :: "'a list \<Rightarrow> 'a list" where
  "firstSeen [] = []"
| "firstSeen (x # xs) = x # firstSeen (filter (\<lambda>y. y \<noteq> x) xs)"

text \<open>
  The categories of the transactions of one type in first-encountered order, the sum of
  the amounts of one category, and the percentage of an amount in a partition total.
\<close>

definition categoriesOf :: "txn_type \<Rightarrow> transaction list \<Rightarrow> string list" where
  "categoriesOf ty ts = firstSeen (map category (filter (\<lambda>t. type t = ty) ts))"

definition categoryTotal :: "txn_type \<Rightarrow> string \<Rightarrow> transaction list \<Rightarrow> real" where
  "categoryTotal ty c ts = (\<Sum>t\<leftarrow>filter (\<lambda>t. type t = ty \<and> category t = c) ts. amount t)"

definition spec_percentage :: "real \<Rightarrow> real \<Rightarrow> int" where
  "spec_percentage a partitionTotal =
     (if partitionTotal > 0 then round (a / partitionTotal * 100) else 0)"

text \<open>
  The breakdown of one type as the specification words it: one slice for each category
  in first-encountered order, sorted by a stable sort into descending amounts.
\<close>

definition spec_slices :: "txn_type \<Rightarrow> transaction list \<Rightarrow> category_slice list" where
  "spec_slices ty ts =
     sort_key (\<lambda>s. - cs_amount s)
       (map (\<lambda>c. \<lparr> cs_category = c,
                    cs_amount = categoryTotal ty c ts,
                    percentage = spec_percentage (categoryTotal ty c ts)
                                   (\<Sum>t\<leftarrow>filter (\<lambda>t. type t = ty) ts. amount t) \<rparr>)
            (categoriesOf ty ts))"

text \<open>
  The order in which an object enumerates keys that were created in the order \<open>cs\<close>:
  array indices ascending, then the other keys as created.
\<close>

definition enumerationOrder :: "string list \<Rightarrow> string list" where
  "enumerationOrder cs =
     sort_key numericValue (filter isArrayIndex cs) @ filter (\<lambda>c. \<not> isArrayIndex c) cs"

text \<open>The slices that \<open>calculateCategoryBreakdown\<close> returns for one type.\<close>

definition breakdownSlices :: "txn_type \<Rightarrow> transaction list \<Rightarrow> category_slice list" where
  "breakdownSlices ty ts =
     (case ty of
        Income \<Rightarrow> bd_income (calculateCategoryBreakdown ts)
      | Expense \<Rightarrow> bd_expense (calculateCategoryBreakdown ts))"

text \<open>
  Percentage closure of \<open>n\<close> slices: their percentages sum to a value from
  \<open>100 - (n - 1)\<close> to \<open>100 + (n - 1)\<close>, and each is from 0 to 100.
\<close>

definition closure_holds :: "category_slice list \<Rightarrow> bool" where
  "closure_holds slices \<longleftrightarrow>
     100 - (int (length slices) - 1) \<le> (\<Sum>s\<leftarrow>slices. percentage s)
     \<and> (\<Sum>s\<leftarrow>slices. percentage s) \<le> 100 + (int (length slices) - 1)
     \<and> list_all (\<lambda>s. 0 \<le> percentage s \<and> percentage s \<le> 100) slices"

text \<open>No transaction of the list has a category that names an inherited property.\<close>

definition own_categories :: "transaction list \<Rightarrow> bool" where
  "own_categories ts = list_all (\<lambda>t. category t \<notin> set inheritedNames) ts"

text \<open>
  For the proofs about the category totals: the pairs of category and amount that one
  type contributes, the object that adding them one by one builds, and the slice of an
  entry.
\<close>

definition pairsOf :: "txn_type \<Rightarrow> transaction list \<Rightarrow> (string \<times> real) list" where
  "pairsOf ty ts = map (\<lambda>t. (category t, amount t)) (filter (\<lambda>t. type t = ty) ts)"

fun sumInto :: "real object \<Rightarrow> (string \<times> real) list \<Rightarrow> real object" where
  "sumInto obj [] = obj"
| "sumInto obj (x # xs) = sumInto (addTo obj (fst x) (snd x)) xs"

definition sliceOf :: "real \<Rightarrow> string \<times> real \<Rightarrow> category_slice" where
  "sliceOf T e =
     \<lparr> cs_category = fst e, cs_amount = snd e,
       percentage = (if T > 0 then round ((snd e / T) * 100) else 0) \<rparr>"

section \<open>Sample data\<close>

definition example_transaction :: "txn_type \<Rightarrow> real \<Rightarrow> string \<Rightarrow> string \<Rightarrow> transaction" where
  "example_transaction ty a c d =
     \<lparr> transactionId = ''t'', userId = ''u1'', amount = a, description = ''item'',
       category = c, type = ty, date = d, createdAt = d, updatedAt = d \<rparr>"

text \<open>A store that knows every user and answers every query with the same items.\<close>

definition example_store :: "transaction list \<Rightarrow> db" where
  "example_store ts =
     \<lparr> getUser = (\<lambda>u. Inr (Some \<lparr> user_userId = u, user_startingBalance = Some 500 \<rparr>)),
       queryTransactions = (\<lambda>u f. Inr \<lparr> Items = Some ts, Count = Some (length ts) \<rparr>),
       putTransaction = (\<lambda>item. None),
       addBalance = (\<lambda>u a. None),
       setBalance = (\<lambda>u a. None) \<rparr>"

definition example_clock :: "int \<Rightarrow> string" where
  "example_clock t = (if t < 0 then ''before-1970'' else ''since-1970'')"

text \<open>
  The scenario of the specification: an income of 100 and an expense of 40 on one day,
  an income of 50 on the next.
\<close>

definition scenario :: "transaction list" where
  "scenario =
     [example_transaction Income 100 ''Sales'' ''2024-10-01T09:00:00.000Z'',
      example_transaction Expense 40 ''Rent'' ''2024-10-01T17:30:00.000Z'',
      example_transaction Income 50 ''Sales'' ''2024-10-02T08:15:00.000Z'']"

definition example_body :: "jsval \<Rightarrow> request_body" where
  "example_body a =
     \<lparr> body_type = JString ''expense'', body_amount = a, body_description = JString ''Rent'',
       body_category = JUndefined, body_date = JUndefined, body_tags = JUndefined \<rparr>"

definition example_models :: mongoose where
  "example_models =
     \<lparr> save = (\<lambda>doc. None),
       findByIdAndUpdate = (\<lambda>uid a. Inr (Some \<lparr> doc_currentBalance = 500 \<rparr>)) \<rparr>"

text \<open>What the scenario groups to, and its daily series from the anchor balance 0.\<close>

definition scenario_grouped :: "day_data object" where
  "scenario_grouped =
     [(''2024-10-01'', \<lparr> dd_income = 100, dd_expense = 40, dd_transactions = take 2 scenario \<rparr>),
      (''2024-10-02'', \<lparr> dd_income = 50, dd_expense = 0, dd_transactions = drop 2 scenario \<rparr>)]"

definition scenario_series :: "chart_point list" where
  "scenario_series =
     [\<lparr> cp_date = ''2024-10-01'', cp_income = 100, cp_expense = 40, net = 60,
        cumulativeBalance = 60 \<rparr>,
      \<lparr> cp_date = ''2024-10-02'', cp_income = 50, cp_expense = 0, net = 50,
        cumulativeBalance = 110 \<rparr>]"

text \<open>Any instant of October 2024.\<close>

definition october_2024 :: local_date where
  "october_2024 = \<lparr> getFullYear = 2024, getMonth = 9 \<rparr>"

text \<open>Three categories of equal amounts.\<close>

definition example_categories :: "real object" where
  "example_categories = [(''Rent'', 1), (''Food'', 1), (''Fuel'', 1)]"

text \<open>Two expenses of equal amounts whose categories are years.\<close>

definition tie_example :: "transaction list" where
  "tie_example =
     [example_transaction Expense 50 ''2024'' ''2024-10-01T09:00:00.000Z'',
      example_transaction Expense 50 ''2023'' ''2024-10-02T09:00:00.000Z'']"

text \<open>Expenses in five categories, four of them of equal amounts.\<close>

definition mixed_example :: "transaction list" where
  "mixed_example =
     [example_transaction Expense 50 ''2024'' ''2024-10-01T09:00:00.000Z'',
      example_transaction Expense 50 ''2023'' ''2024-10-02T09:00:00.000Z'',
      example_transaction Expense 50 ''Rent'' ''2024-10-03T09:00:00.000Z'',
      example_transaction Expense 70 ''Food'' ''2024-10-03T10:00:00.000Z'',
      example_transaction Expense 50 ''Fuel'' ''2024-10-04T09:00:00.000Z'']"

chapter \<open>Properties\<close>

section \<open>Totals\<close>

lemma foldl_add_amount:
  "foldl (\<lambda>sum t. sum + amount t) a ts = a + (\<Sum>t\<leftarrow>ts. amount t)"
  by (induction ts arbitrary: a) simp_all

lemma total_of_sum: "total_of ty ts = (\<Sum>t\<leftarrow>filter (\<lambda>t. type t = ty) ts. amount t)"
  by (simp add: total_of_def foldl_add_amount)

lemma summary_fields:
  "totalIncome (calculateSummary ts) = total_of Income ts"
  "totalExpenses (calculateSummary ts) = total_of Expense ts"
  "netAmount (calculateSummary ts) = total_of Income ts - total_of Expense ts"
  "transactionCount (calculateSummary ts) = length ts"
  by (simp_all add: calculateSummary_def Let_def)

lemma period_summary:
  assumes "json (snd (getTransactionsByPeriod store toISOString now sub param)) = Inr payload"
  shows "pp_summary payload = calculateSummary (pp_transactions payload)"
  using assms
  by (auto simp: getTransactionsByPeriod_def Let_def split: option.splits if_splits sum.splits)

lemma analytics_summary:
  assumes "json (snd (getAnalytics store toISOString now sub param)) = Inr payload"
  shows "\<exists>u f result. queryTransactions store u f = Inr result
            \<and> ap_summary payload = calculateSummary (itemsOf result)"
  using assms
  by (fastforce simp: getAnalytics_def Let_def split: option.splits if_splits sum.splits)



section \<open>Health score\<close>



section \<open>Percentage change and trend\<close>

lemma trendOf_ok:
  "trend_label_ok \<lparr> m_value = v, m_percentageChange = c, m_trend = trendOf c \<rparr>"
  by (simp add: trend_label_ok_def trendOf_def)

lemma dashboardMetrics_trends: "dashboard_trends_ok (dashboardMetrics b cs ps)"
  by (simp add: dashboard_trends_ok_def dashboardMetrics_def Let_def trendOf_ok)

lemma getDashboard_trends:
  assumes "json (snd (getDashboard store toISOString now sub)) = Inr payload"
  shows "dashboard_trends_ok (dashboard payload)"
  using assms
  by (auto simp: getDashboard_def Let_def dashboardMetrics_trends
           split: option.splits if_splits sum.splits)



section \<open>Daily series\<close>

lemma mset_Object_entries: "mset (Object_entries obj) = mset obj"
  by (simp add: Object_entries_def)

lemma mset_Object_keys: "mset (Object_keys obj) = mset (map fst obj)"
  by (simp add: Object_keys_def mset_Object_entries)

lemma set_Object_keys: "set (Object_keys obj) = fst ` set obj"
  using mset_Object_keys [of obj] by (metis mset_eq_setD set_map)

lemma distinct_Object_keys: "distinct (map fst obj) \<Longrightarrow> distinct (Object_keys obj)"
  using mset_Object_keys [of obj] by (metis mset_eq_imp_distinct_iff)

lemma groupStep_keys: "fst ` set (groupStep g t) = insert (dayKey (date t)) (fst ` set g)"
  by (simp add: groupStep_def Let_def dom_update)

lemma groupStep_distinct: "distinct (map fst g) \<Longrightarrow> distinct (map fst (groupStep g t))"
  by (simp add: groupStep_def Let_def distinct_update)

lemma groupFrom_total: "own_day_keys ts \<Longrightarrow> \<exists>g'. groupFrom g ts = Inr g'"
  by (induction ts arbitrary: g) (simp_all add: own_day_keys_def)

lemma groupFrom_keys:
  "groupFrom g ts = Inr g' \<Longrightarrow>
     fst ` set g' = fst ` set g \<union> (\<lambda>t. dayKey (date t)) ` set ts"
  by (induction ts arbitrary: g) (auto simp: groupStep_keys split: if_splits)

lemma groupFrom_distinct:
  "groupFrom g ts = Inr g' \<Longrightarrow> distinct (map fst g) \<Longrightarrow> distinct (map fst g')"
  by (induction ts arbitrary: g) (auto simp: groupStep_distinct split: if_splits)

lemma grouped_keys:
  "groupTransactionsByDate ts = Inr g \<Longrightarrow> fst ` set g = (\<lambda>t. dayKey (date t)) ` set ts"
  using groupFrom_keys [of "[]" ts g] by (simp add: groupTransactionsByDate_def)

lemma grouped_distinct: "groupTransactionsByDate ts = Inr g \<Longrightarrow> distinct (map fst g)"
  using groupFrom_distinct [of "[]" ts g] by (simp add: groupTransactionsByDate_def)

lemma chartFrom_ok:
  "set ds \<subseteq> fst ` set g \<Longrightarrow>
     \<exists>points. chartFrom g b ds = Inr points \<and> map cp_date points = ds
       \<and> (points \<noteq> [] \<longrightarrow> cumulativeBalance (last points) = b + (\<Sum>d\<leftarrow>ds. dayNet g d))"
proof (induction ds arbitrary: b)
  case Nil
  then show ?case by simp
next
  case (Cons d ds)
  from Cons.prems obtain v where v: "map_of g d = Some v"
    by (metis list.set_intros(1) map_of_eq_None_iff not_Some_eq subsetD)
  let ?b = "b + (dd_income v - dd_expense v)"
  from Cons.prems have "set ds \<subseteq> fst ` set g" by simp
  from Cons.IH [OF this, of ?b] obtain points where
    p: "chartFrom g ?b ds = Inr points" "map cp_date points = ds"
       "points \<noteq> [] \<longrightarrow> cumulativeBalance (last points) = ?b + (\<Sum>d\<leftarrow>ds. dayNet g d)"
    by blast
  have empty: "points = [] \<Longrightarrow> ds = []"
    using p(2) by auto
  show ?case
    using v p empty by (auto simp: Let_def dayNet_def)
qed

lemma sum_update_absent:
  "k \<notin> fst ` set al \<Longrightarrow>
     (\<Sum>e\<leftarrow>AList.update k v al. f (snd e)) = (\<Sum>e\<leftarrow>al. (f (snd e) :: real)) + f v"
  by (induction al) auto

lemma sum_update_present:
  "distinct (map fst al) \<Longrightarrow> map_of al k = Some w \<Longrightarrow>
     (\<Sum>e\<leftarrow>AList.update k v al. f (snd e)) = (\<Sum>e\<leftarrow>al. (f (snd e) :: real)) - f w + f v"
proof (induction al)
  case Nil
  then show ?case by simp
next
  case (Cons e al)
  show ?case
  proof (cases "fst e = k")
    case True
    with Cons.prems show ?thesis by (cases e) auto
  next
    case False
    with Cons show ?thesis by (cases e) auto
  qed
qed

lemma groupStep_net:
  assumes "distinct (map fst g)"
  shows "netOf (groupStep g t) = netOf g + signedAmount t"
proof (cases "map_of g (dayKey (date t))")
  case None
  then have "dayKey (date t) \<notin> fst ` set g"
    by (simp add: map_of_eq_None_iff)
  from sum_update_absent [OF this, where f = "\<lambda>v. dd_income v - dd_expense v"] None
  show ?thesis
    by (simp add: netOf_def groupStep_def Let_def signedAmount_def)
next
  case (Some w)
  from sum_update_present [OF assms Some, where f = "\<lambda>v. dd_income v - dd_expense v"] Some
  show ?thesis
    by (simp add: netOf_def groupStep_def Let_def signedAmount_def)
qed

lemma groupFrom_net:
  "groupFrom g ts = Inr g' \<Longrightarrow> distinct (map fst g) \<Longrightarrow>
     netOf g' = netOf g + (\<Sum>t\<leftarrow>ts. signedAmount t)"
  by (induction ts arbitrary: g)
     (auto simp: groupStep_net groupStep_distinct split: if_splits)

lemma sum_signed: "(\<Sum>t\<leftarrow>ts. signedAmount t) = total_of Income ts - total_of Expense ts"
proof (induction ts)
  case Nil
  then show ?case by (simp add: total_of_sum)
next
  case (Cons t ts)
  then show ?case
    by (cases "type t") (simp_all add: total_of_sum signedAmount_def)
qed

lemma grouped_net:
  assumes "groupTransactionsByDate ts = Inr g"
  shows "netOf g = total_of Income ts - total_of Expense ts"
proof -
  have "netOf [] = 0"
    by (simp add: netOf_def)
  with groupFrom_net [of "[]" ts g] assms show ?thesis
    by (simp add: groupTransactionsByDate_def sum_signed)
qed

lemma dayNet_keys:
  assumes "distinct (map fst g)"
  shows "(\<Sum>d\<leftarrow>map fst g. dayNet g d) = netOf g"
proof -
  have "dayNet g (fst e) = dd_income (snd e) - dd_expense (snd e)" if "e \<in> set g" for e
  proof -
    from that assms have "map_of g (fst e) = Some (snd e)"
      by simp
    then show ?thesis
      by (simp add: dayNet_def)
  qed
  then have eq: "map (\<lambda>e. dayNet g (fst e)) g
                   = map (\<lambda>e. dd_income (snd e) - dd_expense (snd e)) g"
    by (intro map_cong refl)
  have "(\<Sum>d\<leftarrow>map fst g. dayNet g d) = sum_list (map (\<lambda>e. dayNet g (fst e)) g)"
    by (simp add: comp_def)
  also have "\<dots> = netOf g"
    by (simp only: eq netOf_def)
  finally show ?thesis .
qed

lemma dayNet_sorted_keys:
  assumes "distinct (map fst g)"
  shows "(\<Sum>d\<leftarrow>sort (Object_keys g). dayNet g d) = netOf g"
proof -
  have "mset (sort (Object_keys g)) = mset (map fst g)"
    by (simp add: mset_Object_keys)
  then have "mset (map (dayNet g) (sort (Object_keys g))) = mset (map (dayNet g) (map fst g))"
    by (metis mset_map)
  then have "sum_list (map (dayNet g) (sort (Object_keys g)))
               = sum_list (map (dayNet g) (map fst g))"
    by (metis sum_mset_sum_list)
  with dayNet_keys [OF assms] show ?thesis by simp
qed

lemma chart_of_grouped:
  assumes "groupTransactionsByDate ts = Inr g"
  shows "\<exists>series. generateChartData g b = Inr series
           \<and> map cp_date series = sort (Object_keys g)
           \<and> (series \<noteq> [] \<longrightarrow>
                 cumulativeBalance (last series)
                   = b + (total_of Income ts - total_of Expense ts))"
proof -
  have "set (sort (Object_keys g)) \<subseteq> fst ` set g"
    by (simp add: set_Object_keys)
  from chartFrom_ok [OF this, of b] obtain series where
    s: "chartFrom g b (sort (Object_keys g)) = Inr series"
       "map cp_date series = sort (Object_keys g)"
       "series \<noteq> [] \<longrightarrow>
          cumulativeBalance (last series) = b + (\<Sum>d\<leftarrow>sort (Object_keys g). dayNet g d)"
    by blast
  have "(\<Sum>d\<leftarrow>sort (Object_keys g). dayNet g d) = total_of Income ts - total_of Expense ts"
    using assms by (simp add: dayNet_sorted_keys grouped_distinct grouped_net)
  with s show ?thesis
    by (simp add: generateChartData_def)
qed

lemma scenario_groups: "groupTransactionsByDate scenario = Inr scenario_grouped"
  by code_simp

lemma scenario_chart: "generateChartData scenario_grouped 0 = Inr scenario_series"
  by code_simp



text \<open>
  Claim C3. For every list of transactions the daily series has exactly one point for
  each day key that some transaction has and none for any other day, and its points
  are in strictly ascending order of the day key; for the empty list it is empty.
\<close>

theorem daily_series_shape:
  "(groupTransactionsByDate ts = Inr groupedData \<longrightarrow>
      (\<exists>series. generateChartData groupedData b = Inr series
         \<and> sorted_wrt (<) (map cp_date series)
         \<and> set (map cp_date series) = (\<lambda>t. dayKey (date t)) ` set ts
         \<and> length series = card ((\<lambda>t. dayKey (date t)) ` set ts)))
   \<and> (own_day_keys ts \<longrightarrow> (\<exists>g. groupTransactionsByDate ts = Inr g))
   \<and> groupTransactionsByDate [] = Inr []
   \<and> generateChartData [] b = Inr []"
proof (intro conjI impI)
  assume g: "groupTransactionsByDate ts = Inr groupedData"
  from chart_of_grouped [OF this, of b] obtain series where
    s: "generateChartData groupedData b = Inr series"
       "map cp_date series = sort (Object_keys groupedData)"
    by blast
  have d: "distinct (sort (Object_keys groupedData))"
    using g by (simp add: distinct_Object_keys grouped_distinct)
  then have "sorted_wrt (<) (map cp_date series)"
    by (simp add: s(2) strict_sorted_iff)
  moreover have k: "set (map cp_date series) = (\<lambda>t. dayKey (date t)) ` set ts"
    using g by (simp only: s(2)) (simp add: set_Object_keys grouped_keys)
  moreover have "length series = card ((\<lambda>t. dayKey (date t)) ` set ts)"
    using d k s(2) by (metis distinct_card length_map)
  ultimately show "\<exists>series. generateChartData groupedData b = Inr series
         \<and> sorted_wrt (<) (map cp_date series)
         \<and> set (map cp_date series) = (\<lambda>t. dayKey (date t)) ` set ts
         \<and> length series = card ((\<lambda>t. dayKey (date t)) ` set ts)"
    using s(1) by blast
next
  assume "own_day_keys ts"
  then show "\<exists>g. groupTransactionsByDate ts = Inr g"
    by (simp add: groupTransactionsByDate_def groupFrom_total)
next
  show "groupTransactionsByDate [] = Inr []"
    by (simp add: groupTransactionsByDate_def)
next
  show "generateChartData [] b = Inr []"
    by (simp add: generateChartData_def Object_keys_def Object_entries_def)
qed

theorem daily_series_shape_witness:
  "groupTransactionsByDate scenario = Inr scenario_grouped
   \<and> generateChartData scenario_grouped 0 = Inr scenario_series
   \<and> map cp_date scenario_series = [''2024-10-01'', ''2024-10-02'']
   \<and> sorted_wrt (<) (map cp_date scenario_series)
   \<and> length scenario_series = card ((\<lambda>t. dayKey (date t)) ` set scenario)"
proof -
  from daily_series_shape [of scenario scenario_grouped 0] scenario_groups
  obtain series where s: "generateChartData scenario_grouped 0 = Inr series"
    "sorted_wrt (<) (map cp_date series)"
    "length series = card ((\<lambda>t. dayKey (date t)) ` set scenario)"
    by blast
  from s(1) scenario_chart have eq: "series = scenario_series"
    by simp
  have "map cp_date scenario_series = [''2024-10-01'', ''2024-10-02'']"
    by (simp add: scenario_series_def)
  with s(2,3) eq scenario_groups scenario_chart show ?thesis
    by simp
qed

section \<open>Category breakdown\<close>

lemma sum_round_upper:
  "real_of_int (\<Sum>x\<leftarrow>xs. round x) \<le> (\<Sum>x\<leftarrow>xs. (x::real)) + real (length xs) / 2"
proof (induction xs)
  case Nil
  then show ?case by simp
next
  case (Cons x xs)
  have "real_of_int (round x) \<le> x + 1 / 2"
    by (rule of_int_round_le)
  with Cons show ?case by (simp add: field_simps)
qed

lemma sum_round_lower:
  "(\<Sum>x\<leftarrow>xs. (x::real)) - real (length xs) / 2 \<le> real_of_int (\<Sum>x\<leftarrow>xs. round x)"
proof (induction xs)
  case Nil
  then show ?case by simp
next
  case (Cons x xs)
  have "x - 1 / 2 \<le> real_of_int (round x)"
    by (rule of_int_round_ge)
  with Cons show ?case by (simp add: field_simps)
qed

lemma shares_sum_list: "(\<Sum>a\<leftarrow>as. a / T * 100) = sum_list as / (T::real) * 100"
  by (induction as) (simp_all add: add_divide_distrib distrib_right)

lemma shares_sum:
  assumes "0 < (T::real)" and "sum_list as = T"
  shows "(\<Sum>a\<leftarrow>as. a / T * 100) = 100"
proof -
  have "(\<Sum>a\<leftarrow>as. a / T * 100) = sum_list as / T * 100"
    by (rule shares_sum_list)
  also have "\<dots> = 100"
    using assms by simp
  finally show ?thesis .
qed

lemma member_le_sum:
  assumes "\<forall>a\<in>set as. 0 \<le> (a::real)" and "a \<in> set as"
  shows "a \<le> sum_list as"
  using assms by (simp add: member_le_sum_list)

lemma closure_shares:
  assumes pos: "0 < (T::real)" and total: "sum_list as = T" and nonneg: "\<forall>a\<in>set as. 0 \<le> a"
    and nonempty: "as \<noteq> []"
  shows "100 - (int (length as) - 1) \<le> (\<Sum>a\<leftarrow>as. round (a / T * 100))"
    and "(\<Sum>a\<leftarrow>as. round (a / T * 100)) \<le> 100 + (int (length as) - 1)"
    and "\<forall>a\<in>set as. 0 \<le> round (a / T * 100) \<and> round (a / T * 100) \<le> 100"
proof -
  let ?xs = "map (\<lambda>a. a / T * 100) as"
  let ?S = "\<Sum>a\<leftarrow>as. round (a / T * 100)"
  have S: "?S = (\<Sum>x\<leftarrow>?xs. round x)"
    by (simp add: comp_def)
  have sum: "sum_list ?xs = 100"
    using shares_sum [OF pos total] by simp
  have up: "real_of_int ?S \<le> 100 + real (length as) / 2"
    using sum_round_upper [of ?xs] sum S by simp
  have lo: "100 - real (length as) / 2 \<le> real_of_int ?S"
    using sum_round_lower [of ?xs] sum S by simp
  show "100 - (int (length as) - 1) \<le> ?S" and "?S \<le> 100 + (int (length as) - 1)"
  proof -
    consider (one) "length as = 1" | (more) "2 \<le> length as"
      using nonempty by (cases as) (auto simp: Suc_le_eq)
    then have "100 - (int (length as) - 1) \<le> ?S \<and> ?S \<le> 100 + (int (length as) - 1)"
    proof cases
      case one
      then obtain a where a: "as = [a]"
        by (cases as) auto
      with total pos show ?thesis by simp
    next
      case more
      then have "real (length as) / 2 \<le> real (length as) - 1"
        by simp
      with up lo have "real_of_int ?S \<le> 100 + (real (length as) - 1)"
        "100 - (real (length as) - 1) \<le> real_of_int ?S"
        by linarith+
      then have "real_of_int ?S \<le> real_of_int (100 + (int (length as) - 1))"
        "real_of_int (100 - (int (length as) - 1)) \<le> real_of_int ?S"
        by simp_all
      then show ?thesis
        by (simp only: of_int_le_iff)
    qed
    then show "100 - (int (length as) - 1) \<le> ?S" and "?S \<le> 100 + (int (length as) - 1)"
      by simp_all
  qed
  show "\<forall>a\<in>set as. 0 \<le> round (a / T * 100) \<and> round (a / T * 100) \<le> 100"
  proof
    fix a assume a: "a \<in> set as"
    then have "0 \<le> a" "a \<le> T"
      using nonneg total member_le_sum [OF nonneg a] by auto
    with pos have lo: "0 \<le> a / T * 100" and hi: "a / T * 100 \<le> 100"
      by (simp_all add: field_simps)
    have "round (0::real) \<le> round (a / T * 100)"
      using lo by (rule round_mono)
    moreover have "round (a / T * 100) \<le> round (100::real)"
      using hi by (rule round_mono)
    ultimately    show "0 \<le> round (a / T * 100) \<and> round (a / T * 100) \<le> 100"
      by simp
  qed
qed


lemma formatCategories_percentages:
  "mset (map percentage (formatCategories categories T))
     = mset (map (\<lambda>a. if T > 0 then round (a / T * 100) else 0) (map snd categories))"
proof -
  let ?slice = "\<lambda>e. \<lparr> cs_category = fst e, cs_amount = snd e,
                       percentage = (if T > 0 then round ((snd e / T) * 100) else 0) \<rparr>"
  have "mset (formatCategories categories T) = image_mset ?slice (mset categories)"
    by (simp add: formatCategories_def mset_Object_entries)
  then have "mset (map percentage (formatCategories categories T))
               = image_mset percentage (image_mset ?slice (mset categories))"
    by simp
  also have "\<dots> = mset (map (\<lambda>a. if T > 0 then round (a / T * 100) else 0)
                            (map snd categories))"
    by (simp add: multiset.map_comp comp_def)
  finally show ?thesis .
qed

lemma length_formatCategories: "length (formatCategories categories T) = length categories"
  by (simp add: formatCategories_def Object_entries_def sum_length_filter_compl)

lemma formatCategories_closure:
  assumes "categories \<noteq> []"
    and "list_all (\<lambda>e. 0 \<le> snd e) categories"
    and "partitionTotal = (\<Sum>e\<leftarrow>categories. snd e)"
    and "0 < partitionTotal"
  shows "closure_holds (formatCategories categories partitionTotal)"
proof -
  let ?as = "map snd categories"
  let ?T = partitionTotal
  from assms have as: "?as \<noteq> []" "\<forall>a\<in>set ?as. 0 \<le> a" "sum_list ?as = ?T"
    by (auto simp: list_all_iff)
  note closure = closure_shares [OF assms(4) as(3) as(2) as(1)]
  have perc: "mset (map percentage (formatCategories categories ?T))
                = mset (map (\<lambda>a. round (a / ?T * 100)) ?as)"
    using formatCategories_percentages [of categories ?T] assms(4) by simp
  then have "sum_list (map percentage (formatCategories categories ?T))
               = (\<Sum>a\<leftarrow>?as. round (a / ?T * 100))"
    by (metis sum_mset_sum_list)
  moreover have "\<forall>s\<in>set (formatCategories categories ?T). 0 \<le> percentage s \<and> percentage s \<le> 100"
  proof
    fix s assume "s \<in> set (formatCategories categories ?T)"
    then have "percentage s \<in> set (map percentage (formatCategories categories ?T))"
      by simp
    also have "\<dots> = set (map (\<lambda>a. round (a / ?T * 100)) ?as)"
      using perc by (rule mset_eq_setD)
    finally obtain a where "a \<in> set ?as" "percentage s = round (a / ?T * 100)"
      by auto
    with closure(3) show "0 \<le> percentage s \<and> percentage s \<le> 100"
      by metis
  qed
  ultimately show ?thesis
    using closure(1,2) by (simp add: closure_holds_def length_formatCategories list_all_iff)
qed

lemma set_firstSeen: "set (firstSeen xs) = set xs"
  by (induction xs rule: firstSeen.induct) auto

lemma distinct_firstSeen: "distinct (firstSeen xs)"
  by (induction xs rule: firstSeen.induct) (auto simp: set_firstSeen)

lemma firstSeen_filter_absent:
  "x \<notin> set xs \<Longrightarrow> filter (\<lambda>y. y \<noteq> x) xs = xs"
  by (induction xs) auto

lemma categoryStep_income:
  "type t = Income \<Longrightarrow>
     categoryStep (ic, ec, ti, te) t = (addTo ic (category t) (amount t), ec, ti + amount t, te)"
  by (simp add: categoryStep_def)

lemma categoryStep_expense:
  "type t = Expense \<Longrightarrow>
     categoryStep (ic, ec, ti, te) t = (ic, addTo ec (category t) (amount t), ti, te + amount t)"
  by (simp add: categoryStep_def)

lemma categoryFold:
  "foldl categoryStep (ic, ec, ti, te) ts =
     (sumInto ic (pairsOf Income ts), sumInto ec (pairsOf Expense ts),
      ti + total_of Income ts, te + total_of Expense ts)"
proof (induction ts arbitrary: ic ec ti te)
  case Nil
  then show ?case by (simp add: pairsOf_def total_of_sum)
next
  case (Cons t ts)
  show ?case
  proof (cases "type t")
    case Income
    then show ?thesis
      by (simp add: categoryStep_income Cons.IH pairsOf_def total_of_sum add.assoc)
  next
    case Expense
    then show ?thesis
      by (simp add: categoryStep_expense Cons.IH pairsOf_def total_of_sum add.assoc)
  qed
qed

lemma addTo_keys:
  "map fst (addTo obj c a) = (if c \<in> set (map fst obj) then map fst obj else map fst obj @ [c])"
  by (simp add: addTo_def update_keys)

lemma sumInto_keys:
  "map fst (sumInto obj xs)
     = map fst obj @ firstSeen (filter (\<lambda>k. k \<notin> set (map fst obj)) (map fst xs))"
proof (induction xs arbitrary: obj)
  case Nil
  then show ?case by simp
next
  case (Cons x xs)
  show ?case
  proof (cases "fst x \<in> set (map fst obj)")
    case True
    then show ?thesis by (simp add: Cons.IH addTo_keys)
  next
    case False
    have "filter (\<lambda>k. k \<notin> set (map fst obj @ [fst x])) (map fst xs)
            = filter (\<lambda>y. y \<noteq> fst x) (filter (\<lambda>k. k \<notin> set (map fst obj)) (map fst xs))"
      by (auto intro: filter_cong)
    with False show ?thesis by (simp add: Cons.IH addTo_keys)
  qed
qed

lemma map_of_addTo:
  "map_of (addTo obj c a) = (map_of obj)(c \<mapsto> (case map_of obj c of None \<Rightarrow> 0 | Some v \<Rightarrow> v) + a)"
  by (simp add: addTo_def update_conv')

lemma map_of_sumInto:
  "map_of (sumInto obj xs) c =
     (if c \<in> fst ` set obj \<union> fst ` set xs
      then Some ((case map_of obj c of None \<Rightarrow> 0 | Some v \<Rightarrow> v)
                 + sum_list (map snd (filter (\<lambda>x. fst x = c) xs)))
      else None)"
proof (induction xs arbitrary: obj)
  case Nil
  then show ?case
    by (auto simp: map_of_eq_None_iff [symmetric] split: option.splits)
next
  case (Cons x xs)
  have keys: "fst ` set (addTo obj (fst x) (snd x)) = insert (fst x) (fst ` set obj)"
    by (simp add: addTo_def dom_update)
  show ?case
    by (simp add: Cons.IH keys map_of_addTo split: option.splits)
qed

lemma alist_from_keys:
  "distinct (map fst al) \<Longrightarrow> \<forall>k\<in>set (map fst al). map_of al k = Some (f k)
     \<Longrightarrow> al = map (\<lambda>k. (k, f k)) (map fst al)"
proof (induction al)
  case Nil
  then show ?case by simp
next
  case (Cons e al)
  obtain k v where e: "e = (k, v)"
    by (cases e)
  from Cons.prems(1) e have fresh: "k \<notin> set (map fst al)" and d: "distinct (map fst al)"
    by simp_all
  from Cons.prems(2) e have v: "v = f k"
    by simp
  have "map_of al k' = Some (f k')" if "k' \<in> set (map fst al)" for k'
  proof -
    from that fresh have "k' \<noteq> k" by auto
    moreover have "k' \<in> set (map fst (e # al))"
      using that by simp
    with Cons.prems(2) have "map_of (e # al) k' = Some (f k')"
      by blast
    ultimately show ?thesis using e by simp
  qed
  then have "al = map (\<lambda>k. (k, f k)) (map fst al)"
    using Cons.IH [OF d] by blast
  with e v show ?case by simp
qed

lemma sumInto_empty:
  "sumInto [] xs
     = map (\<lambda>c. (c, sum_list (map snd (filter (\<lambda>x. fst x = c) xs)))) (firstSeen (map fst xs))"
proof -
  let ?F = "\<lambda>c. sum_list (map snd (filter (\<lambda>x. fst x = c) xs))"
  have keys: "map fst (sumInto [] xs) = firstSeen (map fst xs)"
    using sumInto_keys [of "[]" xs] by simp
  then have d: "distinct (map fst (sumInto [] xs))"
    by (simp add: distinct_firstSeen)
  have v: "\<forall>k\<in>set (map fst (sumInto [] xs)). map_of (sumInto [] xs) k = Some (?F k)"
  proof
    fix k assume "k \<in> set (map fst (sumInto [] xs))"
    then have "k \<in> fst ` set xs"
      by (simp add: keys set_firstSeen)
    then show "map_of (sumInto [] xs) k = Some (?F k)"
      by (simp add: map_of_sumInto)
  qed
  have "sumInto [] xs = map (\<lambda>k. (k, ?F k)) (map fst (sumInto [] xs))"
    using d v by (rule alist_from_keys)
  then show ?thesis
    by (simp only: keys)
qed

lemma pairs_total:
  "sum_list (map snd (filter (\<lambda>x. fst x = c) (pairsOf ty ts))) = categoryTotal ty c ts"
  by (induction ts) (simp_all add: pairsOf_def categoryTotal_def)

lemma categories_of_type:
  "sumInto [] (pairsOf ty ts)
     = map (\<lambda>c. (c, categoryTotal ty c ts)) (categoriesOf ty ts)"
proof -
  have "map fst (pairsOf ty ts) = map category (filter (\<lambda>t. type t = ty) ts)"
    by (simp add: pairsOf_def comp_def)
  then show ?thesis
    by (simp add: sumInto_empty pairs_total categoriesOf_def)
qed

lemma insort_key_map:
  "insort_key f (h x) (map h xs) = map h (insort_key (\<lambda>y. f (h y)) x xs)"
  by (induction xs) simp_all

lemma sort_key_map: "sort_key f (map h xs) = map h (sort_key (\<lambda>y. f (h y)) xs)"
  by (induction xs) (simp_all add: insort_key_map)

lemma Object_entries_map:
  "Object_entries (map (\<lambda>c. (c, f c)) cs) = map (\<lambda>c. (c, f c)) (enumerationOrder cs)"
  by (simp add: Object_entries_def enumerationOrder_def filter_map comp_def sort_key_map)

lemma formatCategories_slices:
  "formatCategories categories T
     = sort_key (\<lambda>s. - cs_amount s) (map (sliceOf T) (Object_entries categories))"
  by (simp add: formatCategories_def sliceOf_def [abs_def])

lemma breakdownSlices_eq:
  "breakdownSlices ty ts
     = sort_key (\<lambda>s. - cs_amount s)
         (map (\<lambda>c. sliceOf (total_of ty ts) (c, categoryTotal ty c ts))
              (enumerationOrder (categoriesOf ty ts)))"
proof -
  have fold: "foldl categoryStep ([], [], 0, 0) ts =
     (sumInto [] (pairsOf Income ts), sumInto [] (pairsOf Expense ts),
      total_of Income ts, total_of Expense ts)"
    using categoryFold [of "[]" "[]" 0 0 ts] by simp
  show ?thesis
    by (cases ty)
       (simp_all add: breakdownSlices_def calculateCategoryBreakdown_def fold
          formatCategories_slices categories_of_type Object_entries_map comp_def)
qed

lemma categoryTotal_nonneg:
  "list_all (\<lambda>t. 0 \<le> amount t) ts \<Longrightarrow> 0 \<le> categoryTotal ty c ts"
  by (auto simp: categoryTotal_def list_all_iff intro!: sum_list_nonneg)

lemma firstSeen_sum:
  "(\<Sum>c\<leftarrow>firstSeen cs. sum_list (map snd (filter (\<lambda>x. fst x = c) xs)))
     = sum_list (map snd (filter (\<lambda>x. fst x \<in> set cs) (xs :: (string \<times> real) list)))"
proof (induction cs arbitrary: xs rule: firstSeen.induct)
  case 1
  then show ?case by simp
next
  case (2 c cs)
  let ?rest = "filter (\<lambda>x. fst x \<noteq> c) xs"
  have split: "sum_list (map snd (filter (\<lambda>x. fst x \<in> set (c # cs)) xs))
         = sum_list (map snd (filter (\<lambda>x. fst x = c) xs))
           + sum_list (map snd (filter (\<lambda>x. fst x \<in> set (filter (\<lambda>y. y \<noteq> c) cs)) ?rest))"
    by (induction xs) auto
  have "\<And>k. k \<in> set (firstSeen (filter (\<lambda>y. y \<noteq> c) cs)) \<Longrightarrow>
          filter (\<lambda>x. fst x = k) ?rest = filter (\<lambda>x. fst x = k) xs"
    by (auto simp: set_firstSeen intro: filter_cong)
  then have "(\<Sum>k\<leftarrow>firstSeen (filter (\<lambda>y. y \<noteq> c) cs).
                sum_list (map snd (filter (\<lambda>x. fst x = k) xs)))
             = (\<Sum>k\<leftarrow>firstSeen (filter (\<lambda>y. y \<noteq> c) cs).
                sum_list (map snd (filter (\<lambda>x. fst x = k) ?rest)))"
    by (intro arg_cong [where f = sum_list] map_cong refl) simp
  with "2.IH" [of ?rest] split show ?case
    by simp
qed

lemma categories_sum:
  "(\<Sum>c\<leftarrow>categoriesOf ty ts. categoryTotal ty c ts) = total_of ty ts"
proof -
  let ?xs = "pairsOf ty ts"
  have keys: "map fst ?xs = map category (filter (\<lambda>t. type t = ty) ts)"
    by (simp add: pairsOf_def comp_def)
  have "(\<Sum>c\<leftarrow>categoriesOf ty ts. categoryTotal ty c ts)
          = (\<Sum>c\<leftarrow>firstSeen (map fst ?xs). sum_list (map snd (filter (\<lambda>x. fst x = c) ?xs)))"
    by (simp only: pairs_total categoriesOf_def keys)
  also have "\<dots> = sum_list (map snd (filter (\<lambda>x. fst x \<in> set (map fst ?xs)) ?xs))"
    by (rule firstSeen_sum)
  also have "\<dots> = sum_list (map snd ?xs)"
    by (simp cong: filter_cong)
  also have "\<dots> = total_of ty ts"
    by (simp add: pairsOf_def total_of_sum comp_def)
  finally show ?thesis .
qed

lemma breakdown_as_format:
  "breakdownSlices ty ts
     = formatCategories (map (\<lambda>c. (c, categoryTotal ty c ts)) (categoriesOf ty ts))
         (total_of ty ts)"
proof -
  have fold: "foldl categoryStep ([], [], 0, 0) ts =
     (sumInto [] (pairsOf Income ts), sumInto [] (pairsOf Expense ts),
      total_of Income ts, total_of Expense ts)"
    using categoryFold [of "[]" "[]" 0 0 ts] by simp
  show ?thesis
    by (cases ty)
       (simp_all add: breakdownSlices_def calculateCategoryBreakdown_def fold categories_of_type)
qed

lemma breakdown_closure:
  assumes "list_all (\<lambda>t. 0 \<le> amount t) ts"
    and "0 < (\<Sum>t\<leftarrow>filter (\<lambda>t. type t = ty) ts. amount t)"
  shows "breakdownSlices ty ts \<noteq> [] \<and> closure_holds (breakdownSlices ty ts)"
proof -
  let ?cats = "map (\<lambda>c. (c, categoryTotal ty c ts)) (categoriesOf ty ts)"
  have pos: "0 < total_of ty ts"
    using assms(2) by (simp add: total_of_sum)
  have total: "total_of ty ts = (\<Sum>e\<leftarrow>?cats. snd e)"
    by (simp add: comp_def categories_sum)
  have nonneg: "list_all (\<lambda>e. 0 \<le> snd e) ?cats"
    using assms(1) by (simp add: list_all_iff categoryTotal_nonneg)
  have nonempty: "?cats \<noteq> []"
  proof
    assume "?cats = []"
    then have "(\<Sum>e\<leftarrow>?cats. snd e) = 0" by simp
    with total pos show False by simp
  qed
  from formatCategories_closure [OF nonempty nonneg total pos]
  have "closure_holds (breakdownSlices ty ts)"
    by (simp add: breakdown_as_format)
  moreover have "length (breakdownSlices ty ts) = length ?cats"
    by (simp add: breakdown_as_format length_formatCategories)
  with nonempty have "breakdownSlices ty ts \<noteq> []"
    by auto
  ultimately show ?thesis by simp
qed



lemma enumerationOrder_perm: "mset (enumerationOrder cs) = mset cs"
  by (simp add: enumerationOrder_def)

lemma enumerationOrder_plain:
  "list_all (\<lambda>c. \<not> isArrayIndex c) cs \<Longrightarrow> enumerationOrder cs = cs"
  by (simp add: enumerationOrder_def list_all_iff)

lemma slice_fields:
  "cs_category (sliceOf T e) = fst e" "cs_amount (sliceOf T e) = snd e"
  "percentage (sliceOf T e) = spec_percentage (snd e) T"
  by (simp_all add: sliceOf_def spec_percentage_def)

lemma breakdown_categories:
  "mset (map cs_category (breakdownSlices ty ts)) = mset (categoriesOf ty ts)"
proof -
  have "mset (map cs_category (breakdownSlices ty ts))
          = image_mset cs_category (mset (breakdownSlices ty ts))"
    by simp
  also have "\<dots> = image_mset cs_category
                     (image_mset (\<lambda>c. sliceOf (total_of ty ts) (c, categoryTotal ty c ts))
                        (mset (enumerationOrder (categoriesOf ty ts))))"
    by (simp add: breakdownSlices_eq)
  also have "\<dots> = mset (categoriesOf ty ts)"
    by (simp add: multiset.map_comp comp_def slice_fields enumerationOrder_perm)
  finally show ?thesis .
qed

lemma breakdown_slice:
  assumes "s \<in> set (breakdownSlices ty ts)"
  shows "cs_amount s = categoryTotal ty (cs_category s) ts"
    and "percentage s = spec_percentage (cs_amount s) (total_of ty ts)"
proof -
  from assms obtain c where "s = sliceOf (total_of ty ts) (c, categoryTotal ty c ts)"
    by (auto simp: breakdownSlices_eq)
  then show "cs_amount s = categoryTotal ty (cs_category s) ts"
    and "percentage s = spec_percentage (cs_amount s) (total_of ty ts)"
    by (simp_all add: slice_fields)
qed

lemma breakdown_sorted:
  "sorted_wrt (\<lambda>a b. cs_amount b \<le> cs_amount a) (breakdownSlices ty ts)"
proof -
  have "sorted (map (\<lambda>s. - cs_amount s) (breakdownSlices ty ts))"
    by (simp add: breakdownSlices_eq)
  then show ?thesis
    by (simp add: sorted_map)
qed

lemma breakdown_ties:
  "map cs_category (filter (\<lambda>s. cs_amount s = v) (breakdownSlices ty ts))
     = filter (\<lambda>c. categoryTotal ty c ts = v) (enumerationOrder (categoriesOf ty ts))"
proof -
  let ?slices = "map (\<lambda>c. sliceOf (total_of ty ts) (c, categoryTotal ty c ts))
                   (enumerationOrder (categoriesOf ty ts))"
  have "filter (\<lambda>s. cs_amount s = v) (breakdownSlices ty ts)
          = filter (\<lambda>s. - cs_amount s = - v) (sort_key (\<lambda>s. - cs_amount s) ?slices)"
    by (simp add: breakdownSlices_eq)
  also have "\<dots> = filter (\<lambda>s. - cs_amount s = - v) ?slices"
    by (rule sort_key_stable)
  finally show ?thesis
    by (simp add: filter_map comp_def slice_fields)
qed




section \<open>Month ranges\<close>

lemma month_gap: "currentMonthStart now = prevMonthEnd now + 1000"
  by (simp add: currentMonthStart_def prevMonthEnd_def newDate_def MakeDate_def MakeDay_def
        MakeTime_def Let_def)

text \<open>
  Claim C9 asks that the ranges of the previous and the current month leave no gap. In
  October 2024 the previous range ends at 23:59:59.000 of 30 September and the current
  one starts at 00:00:00.000 of 1 October: the instant half a second after the end of
  the previous range lies between the start of the previous range and the end of the
  current one, and in neither range.
\<close>

theorem month_ranges_leave_gap:
  "prevMonthStart october_2024 = 1725148800000
   \<and> prevMonthEnd october_2024 = 1727740799000
   \<and> currentMonthStart october_2024 = 1727740800000
   \<and> currentMonthEnd october_2024 = 1730419199000
   \<and> in_range (prevMonthStart october_2024) (currentMonthEnd october_2024) 1727740799500
   \<and> \<not> in_range (prevMonthStart october_2024) (prevMonthEnd october_2024) 1727740799500
   \<and> \<not> in_range (currentMonthStart october_2024) (currentMonthEnd october_2024) 1727740799500"
  by (simp add: october_2024_def prevMonthStart_def prevMonthEnd_def currentMonthStart_def
        currentMonthEnd_def newDate_def MakeDate_def MakeDay_def MakeTime_def DayFromYear_def
        InLeapYear_def DaysFromYearStart_def in_range_def Let_def)

section \<open>Period validation\<close>

lemma validPeriods_set: "set validPeriods = {''7d'', ''30d'', ''90d'', ''1y''}"
  by (auto simp: validPeriods_def)


lemma period_rejects:
  assumes "p \<notin> set validPeriods"
  shows "fst (getTransactionsByPeriod store toISOString now sub (Some p)) = []"
    and "status (snd (getTransactionsByPeriod store toISOString now sub (Some p))) = 400"
    and "authenticated sub \<Longrightarrow>
           json (snd (getTransactionsByPeriod store toISOString now sub (Some p)))
             = Inl invalidPeriod"
  using assms
  by (simp_all add: getTransactionsByPeriod_def authenticated_def split: option.splits)

lemma analytics_rejects:
  assumes "p \<notin> set validPeriods"
  shows "fst (getAnalytics store toISOString now sub (Some p)) = []"
    and "status (snd (getAnalytics store toISOString now sub (Some p))) = 400"
    and "authenticated sub \<Longrightarrow>
           json (snd (getAnalytics store toISOString now sub (Some p))) = Inl invalidPeriod"
  using assms
  by (simp_all add: getAnalytics_def authenticated_def split: option.splits)

lemma period_accepts:
  assumes "p \<in> set validPeriods" and "authenticated sub"
  shows "fst (getTransactionsByPeriod store toISOString now sub (Some p)) \<noteq> []"
    and "status (snd (getTransactionsByPeriod store toISOString now sub (Some p))) \<noteq> 400"
  using assms
  by (simp_all add: getTransactionsByPeriod_def authenticated_def Let_def
        split: option.splits sum.splits)

lemma analytics_accepts:
  assumes "p \<in> set validPeriods" and "authenticated sub"
  shows "fst (getAnalytics store toISOString now sub (Some p)) \<noteq> []"
    and "status (snd (getAnalytics store toISOString now sub (Some p))) \<noteq> 400"
  using assms
  by (simp_all add: getAnalytics_def authenticated_def Let_def
        split: option.splits sum.splits)

text \<open>
  Claim C8. The valid period tokens are 7d, 30d, 90d and 1y. For every other token both
  \<open>getTransactionsByPeriod\<close> and \<open>getAnalytics\<close> answer 400 without sending any command
  to the store, and for an authenticated user the error is the invalid-period message;
  for a token of the set and an authenticated user both go on to fetch and do not
  answer 400.
\<close>

theorem invalid_period_rejected:
  "set validPeriods = {''7d'', ''30d'', ''90d'', ''1y''}
   \<and> (p \<notin> set validPeriods \<longrightarrow>
         fst (getTransactionsByPeriod store toISOString now sub (Some p)) = []
         \<and> status (snd (getTransactionsByPeriod store toISOString now sub (Some p))) = 400
         \<and> fst (getAnalytics store toISOString now sub (Some p)) = []
         \<and> status (snd (getAnalytics store toISOString now sub (Some p))) = 400
         \<and> (authenticated sub \<longrightarrow>
               json (snd (getTransactionsByPeriod store toISOString now sub (Some p)))
                 = Inl invalidPeriod
               \<and> json (snd (getAnalytics store toISOString now sub (Some p)))
                   = Inl invalidPeriod))
   \<and> (p \<in> set validPeriods \<and> authenticated sub \<longrightarrow>
         fst (getTransactionsByPeriod store toISOString now sub (Some p)) \<noteq> []
         \<and> status (snd (getTransactionsByPeriod store toISOString now sub (Some p))) \<noteq> 400
         \<and> fst (getAnalytics store toISOString now sub (Some p)) \<noteq> []
         \<and> status (snd (getAnalytics store toISOString now sub (Some p))) \<noteq> 400)"
proof (intro conjI impI)
  show "set validPeriods = {''7d'', ''30d'', ''90d'', ''1y''}"
    by (rule validPeriods_set)
qed (simp_all only: period_rejects analytics_rejects period_accepts analytics_accepts
       not_False_eq_True)


theorem invalid_period_rejected_witness:
  "''5d'' \<notin> set validPeriods \<and> authenticated (Some ''u1'')
   \<and> getTransactionsByPeriod (example_store scenario) example_clock 0 (Some ''u1'') (Some ''5d'')
       = ([], \<lparr> status = 400, json = Inl invalidPeriod \<rparr>)
   \<and> getAnalytics (example_store scenario) example_clock 0 (Some ''u1'') (Some ''5d'')
       = ([], \<lparr> status = 400, json = Inl invalidPeriod \<rparr>)
   \<and> ''90d'' \<in> set validPeriods
   \<and> fst (getTransactionsByPeriod (example_store scenario) example_clock 0 (Some ''u1'')
            (Some ''90d'')) \<noteq> []
   \<and> fst (getAnalytics (example_store scenario) example_clock 0 (Some ''u1'') (Some ''90d''))
       \<noteq> []"
proof -
  have bad: "''5d'' \<notin> set validPeriods" and good: "''90d'' \<in> set validPeriods"
    by (simp_all add: validPeriods_def)
  have auth: "authenticated (Some ''u1'')"
    by (simp add: authenticated_def)
  from invalid_period_rejected [of "''5d''" "example_store scenario" example_clock 0
      "Some ''u1''"] bad auth
  have "fst (getTransactionsByPeriod (example_store scenario) example_clock 0 (Some ''u1'')
              (Some ''5d'')) = []"
    "status (snd (getTransactionsByPeriod (example_store scenario) example_clock 0
                    (Some ''u1'') (Some ''5d''))) = 400"
    "json (snd (getTransactionsByPeriod (example_store scenario) example_clock 0
                  (Some ''u1'') (Some ''5d''))) = Inl invalidPeriod"
    "fst (getAnalytics (example_store scenario) example_clock 0 (Some ''u1'') (Some ''5d''))
       = []"
    "status (snd (getAnalytics (example_store scenario) example_clock 0 (Some ''u1'')
                    (Some ''5d''))) = 400"
    "json (snd (getAnalytics (example_store scenario) example_clock 0 (Some ''u1'')
                  (Some ''5d''))) = Inl invalidPeriod"
    by blast+
  then have rejected:
    "getTransactionsByPeriod (example_store scenario) example_clock 0 (Some ''u1'') (Some ''5d'')
       = ([], \<lparr> status = 400, json = Inl invalidPeriod \<rparr>)"
    "getAnalytics (example_store scenario) example_clock 0 (Some ''u1'') (Some ''5d'')
       = ([], \<lparr> status = 400, json = Inl invalidPeriod \<rparr>)"
    by (simp_all add: prod_eq_iff)
  from invalid_period_rejected [of "''90d''" "example_store scenario" example_clock 0
      "Some ''u1''"] good auth
  have "fst (getTransactionsByPeriod (example_store scenario) example_clock 0 (Some ''u1'')
            (Some ''90d'')) \<noteq> []"
    "fst (getAnalytics (example_store scenario) example_clock 0 (Some ''u1'') (Some ''90d''))
       \<noteq> []"
    by blast+
  with bad good auth rejected show ?thesis by blast
qed

section \<open>Validation of a new transaction\<close>

lemma inputValidation_amount:
  "amount_rejected (body_amount body) \<Longrightarrow> \<exists>m. inputValidation body = Inl m"
  by (auto simp: inputValidation_def amount_rejected_def split: jsval.splits option.splits)

lemma inputValidation_amount_message:
  "amount_rejected (body_amount body) \<Longrightarrow> type_accepted (body_type body)
     \<Longrightarrow> inputValidation body = Inl ''Amount must be a positive number''"
  by (auto simp: inputValidation_def amount_rejected_def type_accepted_def split: jsval.splits)

lemma inputValidation_accepts:
  "inputValidation body = Inr (ty, a, d) \<Longrightarrow> body_amount body = JNumber a \<and> gt_zero a"
  by (cases a) (auto simp: inputValidation_def split: jsval.splits option.splits if_splits)

lemma createTransaction_rejects:
  assumes "amount_rejected (body_amount body)"
  shows "fst (createTransaction store uuid now sub body) = []"
    and "status (snd (createTransaction store uuid now sub body)) = 400"
    and "\<exists>m. json (snd (createTransaction store uuid now sub body)) = Inl m"
  using inputValidation_amount [OF assms]
  by (auto simp: createTransaction_def split: option.splits)

lemma createTransaction_rejects_message:
  assumes "amount_rejected (body_amount body)" and "type_accepted (body_type body)"
    and "authenticated sub"
  shows "json (snd (createTransaction store uuid now sub body))
           = Inl ''Amount must be a positive number''"
  using inputValidation_amount_message [OF assms(1,2)] assms(3)
  by (auto simp: createTransaction_def authenticated_def split: option.splits)

lemma createTransactionMongoose_rejects:
  assumes "amount_rejected (body_amount body)"
  shows "fst (createTransactionMongoose models requestUser body) = []"
    and "status (snd (createTransactionMongoose models requestUser body)) = 400"
    and "\<exists>m. json (snd (createTransactionMongoose models requestUser body)) = Inl m"
  using inputValidation_amount [OF assms]
  by (auto simp: createTransactionMongoose_def split: option.splits)

lemma createTransactionMongoose_rejects_message:
  assumes "amount_rejected (body_amount body)" and "type_accepted (body_type body)"
  shows "json (snd (createTransactionMongoose models requestUser body))
           = Inl ''Amount must be a positive number''"
  using inputValidation_amount_message [OF assms]
  by (auto simp: createTransactionMongoose_def split: option.splits)

lemma createTransaction_stores_positive:
  assumes "PutTransaction item \<in> set (fst (createTransaction store uuid now sub body))"
  shows "body_amount body = JNumber (nt_amount item) \<and> gt_zero (nt_amount item)"
  using assms
  by (auto simp: createTransaction_def Let_def dest: inputValidation_accepts
        split: option.splits if_splits sum.splits prod.splits)

lemma createTransactionMongoose_stores_positive:
  assumes "Save doc \<in> set (fst (createTransactionMongoose models requestUser body))"
  shows "body_amount body = JNumber (doc_amount doc) \<and> gt_zero (doc_amount doc)"
  using assms
  by (auto simp: createTransactionMongoose_def Let_def dest: inputValidation_accepts
        split: option.splits if_splits sum.splits prod.splits)

lemma created_has_put:
  assumes "status (snd (createTransaction store uuid now sub body)) = 201"
  shows "\<exists>item. PutTransaction item \<in> set (fst (createTransaction store uuid now sub body))"
  using assms
  by (auto simp: createTransaction_def Let_def
        split: option.splits if_splits sum.splits prod.splits)

text \<open>
  Claim C10. When the amount of the body is not a number, is NaN or is at most zero
  (zero included), both variants of \<open>createTransaction\<close> answer 400 with an error and
  send no command at all, so no transaction is stored and no balance is changed; when
  the type is valid and the user authenticated the error is the message about the
  amount. Every transaction that is stored has the amount of the body, a number
  strictly greater than zero, and a 201 answer has stored one.
\<close>

theorem amount_must_be_positive:
  "(amount_rejected (body_amount body) \<longrightarrow>
       fst (createTransaction store uuid now sub body) = []
       \<and> status (snd (createTransaction store uuid now sub body)) = 400
       \<and> (\<exists>m. json (snd (createTransaction store uuid now sub body)) = Inl m)
       \<and> fst (createTransactionMongoose models requestUser body) = []
       \<and> status (snd (createTransactionMongoose models requestUser body)) = 400
       \<and> (\<exists>m. json (snd (createTransactionMongoose models requestUser body)) = Inl m)
       \<and> (type_accepted (body_type body) \<and> authenticated sub \<longrightarrow>
             json (snd (createTransaction store uuid now sub body))
               = Inl ''Amount must be a positive number''
             \<and> json (snd (createTransactionMongoose models requestUser body))
                 = Inl ''Amount must be a positive number''))
   \<and> (PutTransaction item \<in> set (fst (createTransaction store uuid now sub body)) \<longrightarrow>
         body_amount body = JNumber (nt_amount item) \<and> gt_zero (nt_amount item))
   \<and> (Save doc \<in> set (fst (createTransactionMongoose models requestUser body)) \<longrightarrow>
         body_amount body = JNumber (doc_amount doc) \<and> gt_zero (doc_amount doc))
   \<and> (status (snd (createTransaction store uuid now sub body)) = 201 \<longrightarrow>
         (\<exists>stored. PutTransaction stored
                     \<in> set (fst (createTransaction store uuid now sub body))))
   \<and> amount_rejected (JNumber (Finite 0))
   \<and> amount_rejected (JNumber NaN)
   \<and> amount_rejected (JString ''5'')
   \<and> amount_rejected JUndefined"
proof -
  have samples: "amount_rejected (JNumber (Finite 0))" "amount_rejected (JNumber NaN)"
    "amount_rejected (JString ''5'')" "amount_rejected JUndefined"
    by (simp_all add: amount_rejected_def)
  have rejects: "amount_rejected (body_amount body) \<longrightarrow>
       fst (createTransaction store uuid now sub body) = []
       \<and> status (snd (createTransaction store uuid now sub body)) = 400
       \<and> (\<exists>m. json (snd (createTransaction store uuid now sub body)) = Inl m)
       \<and> fst (createTransactionMongoose models requestUser body) = []
       \<and> status (snd (createTransactionMongoose models requestUser body)) = 400
       \<and> (\<exists>m. json (snd (createTransactionMongoose models requestUser body)) = Inl m)
       \<and> (type_accepted (body_type body) \<and> authenticated sub \<longrightarrow>
             json (snd (createTransaction store uuid now sub body))
               = Inl ''Amount must be a positive number''
             \<and> json (snd (createTransactionMongoose models requestUser body))
                 = Inl ''Amount must be a positive number'')"
  proof
    assume r: "amount_rejected (body_amount body)"
    note a = createTransaction_rejects [OF r, of store uuid now sub]
    note b = createTransactionMongoose_rejects [OF r, of models requestUser]
    have "type_accepted (body_type body) \<and> authenticated sub \<longrightarrow>
             json (snd (createTransaction store uuid now sub body))
               = Inl ''Amount must be a positive number''
             \<and> json (snd (createTransactionMongoose models requestUser body))
                 = Inl ''Amount must be a positive number''"
      using createTransaction_rejects_message [OF r]
        createTransactionMongoose_rejects_message [OF r] by blast
    with a b show "fst (createTransaction store uuid now sub body) = []
       \<and> status (snd (createTransaction store uuid now sub body)) = 400
       \<and> (\<exists>m. json (snd (createTransaction store uuid now sub body)) = Inl m)
       \<and> fst (createTransactionMongoose models requestUser body) = []
       \<and> status (snd (createTransactionMongoose models requestUser body)) = 400
       \<and> (\<exists>m. json (snd (createTransactionMongoose models requestUser body)) = Inl m)
       \<and> (type_accepted (body_type body) \<and> authenticated sub \<longrightarrow>
             json (snd (createTransaction store uuid now sub body))
               = Inl ''Amount must be a positive number''
             \<and> json (snd (createTransactionMongoose models requestUser body))
                 = Inl ''Amount must be a positive number'')"
      by (intro conjI)
  qed
  have put: "PutTransaction item \<in> set (fst (createTransaction store uuid now sub body)) \<longrightarrow>
         body_amount body = JNumber (nt_amount item) \<and> gt_zero (nt_amount item)"
    by (rule impI) (rule createTransaction_stores_positive)
  have saved: "Save doc \<in> set (fst (createTransactionMongoose models requestUser body)) \<longrightarrow>
         body_amount body = JNumber (doc_amount doc) \<and> gt_zero (doc_amount doc)"
    by (rule impI) (rule createTransactionMongoose_stores_positive)
  have created: "status (snd (createTransaction store uuid now sub body)) = 201 \<longrightarrow>
         (\<exists>stored. PutTransaction stored
                     \<in> set (fst (createTransaction store uuid now sub body)))"
    by (rule impI) (rule created_has_put)
  from rejects put saved created samples show ?thesis
    by (intro conjI)
qed

theorem amount_must_be_positive_witness:
  "amount_rejected (body_amount (example_body (JNumber (Finite 0))))
   \<and> fst (createTransaction (example_store []) ''id-1'' ''2024-10-02T10:00:00.000Z''
            (Some ''u1'') (example_body (JNumber (Finite 0)))) = []
   \<and> snd (createTransaction (example_store []) ''id-1'' ''2024-10-02T10:00:00.000Z''
            (Some ''u1'') (example_body (JNumber (Finite 0))))
       = \<lparr> status = 400, json = Inl ''Amount must be a positive number'' \<rparr>
   \<and> status (snd (createTransaction (example_store []) ''id-1'' ''2024-10-02T10:00:00.000Z''
            (Some ''u1'') (example_body (JNumber (Finite 5))))) = 201
   \<and> (\<exists>stored. PutTransaction stored
          \<in> set (fst (createTransaction (example_store []) ''id-1''
                         ''2024-10-02T10:00:00.000Z'' (Some ''u1'')
                         (example_body (JNumber (Finite 5)))))
        \<and> nt_amount stored = Finite 5 \<and> gt_zero (nt_amount stored))"
proof -
  let ?run = "\<lambda>a. createTransaction (example_store []) ''id-1'' ''2024-10-02T10:00:00.000Z''
                     (Some ''u1'') (example_body a)"
  have rejected: "amount_rejected (body_amount (example_body (JNumber (Finite 0))))"
    by (simp add: example_body_def amount_rejected_def)
  have accepted: "type_accepted (body_type (example_body (JNumber (Finite 0))))"
    "authenticated (Some ''u1'')"
    by (simp_all add: example_body_def type_accepted_def authenticated_def)
  from amount_must_be_positive [of "example_body (JNumber (Finite 0))" "example_store []"
      "''id-1''" "''2024-10-02T10:00:00.000Z''" "Some ''u1''" example_models None]
    rejected accepted
  have zero: "fst (?run (JNumber (Finite 0))) = []"
    "status (snd (?run (JNumber (Finite 0)))) = 400"
    "json (snd (?run (JNumber (Finite 0)))) = Inl ''Amount must be a positive number''"
    by blast+
  have created: "status (snd (?run (JNumber (Finite 5)))) = 201"
    by (simp add: createTransaction_def inputValidation_def example_body_def
          example_store_def Let_def)
  with amount_must_be_positive [of "example_body (JNumber (Finite 5))" "example_store []"
      "''id-1''" "''2024-10-02T10:00:00.000Z''" "Some ''u1''"]
  obtain stored where put: "PutTransaction stored \<in> set (fst (?run (JNumber (Finite 5))))"
    by blast
  with amount_must_be_positive [of "example_body (JNumber (Finite 5))" "example_store []"
      "''id-1''" "''2024-10-02T10:00:00.000Z''" "Some ''u1''" _ _ stored]
  have "body_amount (example_body (JNumber (Finite 5))) = JNumber (nt_amount stored)"
    "gt_zero (nt_amount stored)"
    by blast+
  then have "nt_amount stored = Finite 5" "gt_zero (nt_amount stored)"
    by (simp_all add: example_body_def)
  with put rejected zero created show ?thesis
    by (cases "snd (?run (JNumber (Finite 0)))") auto
qed

end
